theory Spec2Isabelle
  imports Complex_Main "HOL-Library.Log_Nat"
begin

section \<open>JavaScript numbers\<close>

text \<open>
  The handlers compute with JavaScript numbers: IEEE 754 binary64 values. A number is
  modelled by its exact real value, or one of the three non-finite values. The two zeros
  are identified: the handlers never divide, and a response prints both as \<open>0\<close>.
  Every arithmetic operation rounds its exact result to the nearest binary64 value, ties
  to the even mantissa.
\<close>

datatype number = NaN | PosInf | NegInf | Finite real

definition floor_log2 :: "real \<Rightarrow> int" where
  \<comment> \<open>for \<open>0 < x\<close>, the integer \<open>k\<close> with \<open>2^k \<le> x < 2^(k+1)\<close>\<close>
  "floor_log2 x = (if 1 \<le> x then bitlen \<lfloor>x\<rfloor> - 1 else - bitlen (\<lceil>1 / x\<rceil> - 1))"

definition round_half_even :: "real \<Rightarrow> int" where
  "round_half_even y =
     (let n = \<lfloor>y\<rfloor>; d = y - of_int n
      in if d < 1 / 2 then n else if 1 / 2 < d then n + 1 else if even n then n else n + 1)"

definition binary64 :: "real \<Rightarrow> number" where
  \<comment> \<open>53 bits of mantissa; the least exponent of a unit in the last place is \<open>-1074\<close>
      (subnormal numbers); the largest finite value is \<open>(2^53 - 1) * 2^971\<close>\<close>
  "binary64 x =
     (if x = 0 then Finite 0
      else let e = max (floor_log2 \<bar>x\<bar> - 52) (- 1074);
               n = round_half_even (x / 2 powi e)
           in if 971 < e \<or> (e = 971 \<and> 2 ^ 53 \<le> \<bar>n\<bar>)
              then (if 0 < x then PosInf else NegInf)
              else Finite (of_int n * 2 powi e))"

fun js_times :: "number \<Rightarrow> number \<Rightarrow> number" where
  "js_times (Finite x) (Finite y) = binary64 (x * y)"
| "js_times NaN b = NaN"
| "js_times a NaN = NaN"
| "js_times (Finite x) PosInf = (if x = 0 then NaN else if 0 < x then PosInf else NegInf)"
| "js_times (Finite x) NegInf = (if x = 0 then NaN else if 0 < x then NegInf else PosInf)"
| "js_times PosInf (Finite y) = (if y = 0 then NaN else if 0 < y then PosInf else NegInf)"
| "js_times NegInf (Finite y) = (if y = 0 then NaN else if 0 < y then NegInf else PosInf)"
| "js_times PosInf PosInf = PosInf"
| "js_times PosInf NegInf = NegInf"
| "js_times NegInf PosInf = NegInf"
| "js_times NegInf NegInf = PosInf"

fun js_plus :: "number \<Rightarrow> number \<Rightarrow> number" where
  "js_plus (Finite x) (Finite y) = binary64 (x + y)"
| "js_plus NaN b = NaN"
| "js_plus a NaN = NaN"
| "js_plus PosInf NegInf = NaN"
| "js_plus NegInf PosInf = NaN"
| "js_plus PosInf b = PosInf"
| "js_plus NegInf b = NegInf"
| "js_plus a PosInf = PosInf"
| "js_plus a NegInf = NegInf"

text \<open>
  \<open>Number.prototype.toFixed\<close> returns a string. The model keeps what the string denotes:
  \<open>Decimal d\<close> is the fixed-point notation of the decimal fraction \<open>d\<close>; \<open>ToString x\<close> is
  the string of the number \<open>x\<close> itself, which \<open>toFixed\<close> returns for a number that is not
  finite or is at least \<open>10^21\<close> in magnitude. For the other numbers \<open>toFixed\<close> takes the
  magnitude, picks the integer \<open>n\<close> for which \<open>n / 10^f\<close> is nearest to it, the larger one if
  two are equally near, and puts the sign back.
  \<open>parseFloat\<close> reads the string: the binary64 value nearest to a decimal, and the
  number itself from its own string.
\<close>

datatype numeric_string = Decimal real | ToString number

definition toFixed :: "number \<Rightarrow> nat \<Rightarrow> numeric_string" where
  "toFixed x f =
     (case x of
        Finite r \<Rightarrow>
          if 10 ^ 21 \<le> \<bar>r\<bar> then ToString x
          else let y = \<bar>r\<bar> * 10 ^ f; lo = \<lfloor>y\<rfloor>;
                   n = (if y - of_int lo < of_int (lo + 1) - y then lo else lo + 1)
               in Decimal ((if r < 0 then - 1 else 1) * (of_int n / 10 ^ f))
      | _ \<Rightarrow> ToString x)"

fun parseFloat :: "numeric_string \<Rightarrow> number" where
  "parseFloat (Decimal d) = binary64 d"
| "parseFloat (ToString x) = x"

section \<open>Values of a request body\<close>

text \<open>
  A request body is JSON, and the handlers declare no type for it. A value of it is
  \<open>null\<close>, a boolean, a number, a string, an array or an object; a property that an
  object does not have is undefined, which is \<open>None\<close> here.
\<close>

datatype json =
  JNull | JBool bool | JNumber number | JString string | JArray "json list"
  | JObject "(string \<times> json) list"

definition property :: "json \<Rightarrow> string \<Rightarrow> json option" where
  \<comment> \<open>\<open>v.k\<close> for a value \<open>v\<close> that is not \<open>null\<close> and a key \<open>k\<close> that no string or array has
      of itself, as \<open>productId\<close> and \<open>quantity\<close>; of a key written twice the parser keeps
      the last value\<close>
  "property v k = (case v of JObject members \<Rightarrow> map_of (rev members) k | _ \<Rightarrow> None)"

definition iterate :: "json option \<Rightarrow> json list option" where
  \<comment> \<open>the values that \<open>for (const item of v)\<close> runs through: the elements of an array, the
      characters of a string; any other \<open>v\<close> is not iterable and the statement throws
      (\<open>None\<close>)\<close>
  "iterate v =
     (case v of
        Some (JArray items) \<Rightarrow> Some items
      | Some (JString s) \<Rightarrow> Some (map (\<lambda>ch. JString [ch]) s)
      | _ \<Rightarrow> None)"

definition toNumber :: "(json \<Rightarrow> number) \<Rightarrow> json option \<Rightarrow> number" where
  \<comment> \<open>the number that \<open>*\<close> makes of an operand; what it makes of a string or an array, by
      the grammar of numeric strings, is the parameter \<open>coerce\<close>\<close>
  "toNumber coerce v =
     (case v of
        None \<Rightarrow> NaN
      | Some JNull \<Rightarrow> Finite 0
      | Some (JBool b) \<Rightarrow> (if b then Finite 1 else Finite 0)
      | Some (JNumber n) \<Rightarrow> n
      | Some (JObject members) \<Rightarrow> NaN
      | Some j \<Rightarrow> coerce j)"

section \<open>Data model\<close>

text \<open>
  The rows of the store, with the fields the controllers read and write. A relation to a
  user made with \<open>connect: { userId }\<close> is kept as that user's id. Time stamps are
  natural numbers.
\<close>

record user =
  userId :: string
  email :: string
  role :: string

record product =
  productId :: string
  productName :: string
  productCategory :: string
  productComments :: string
  product_createdBy :: string
  product_updatedBy :: string
  product_updatedAt :: nat

record supermarket =
  supermarketId :: string
  supermarketName :: string
  supermarketComments :: string
  city :: string
  supermarket_createdBy :: string
  supermarket_updatedBy :: string
  supermarket_updatedAt :: nat

text \<open>
  An inventory row is read together with its relations, as the queries of the
  controllers ask for it (\<open>include\<close> and nested \<open>select\<close>): the row carries its
  supermarket, its product and the user who last updated it. The foreign keys
  \<open>productId\<close> and \<open>supermarketId\<close> of the row are the ids of these related rows.
  A handler that updates a product or a supermarket updates the row inside the inventory
  rows that refer to it as well, so a later read sees the update, as a join does.
  A price is a finite number, given by its exact value.
\<close>

record inventory =
  price :: real
  inStock :: bool
  updatedAt :: nat
  updatedBy :: user
  supermarket :: supermarket
  product :: product

record store =
  products :: "product list"
  supermarkets :: "supermarket list"
  inventories :: "inventory list"

section \<open>Responses\<close>

text \<open>
  \<open>res.status(n).json(v)\<close> is \<open>Response n v\<close>; \<open>res.json(v)\<close> sends status 200. The bodies
  are \<open>{ message: m }\<close>, \<open>{ error: m }\<close> or the value the handler built.
\<close>

datatype 'a body = Message string | Error string | Json 'a

datatype 'a response = Response (status: nat) (body: "'a body")

section \<open>Cheapest offer of a product in a city\<close>

text \<open>
  \<open>prisma.inventory.findFirst\<close> with \<open>where: { productId, inStock: true, supermarket: { city } }\<close>
  and \<open>orderBy: { price: 'asc' }\<close>: the matching rows in ascending order of price, and the
  first of them. Among rows of equal price the one the table yields first is taken.
\<close>

definition offer :: "string \<Rightarrow> string \<Rightarrow> inventory \<Rightarrow> bool" where
  "offer pid c e \<longleftrightarrow> productId (product e) = pid \<and> inStock e \<and> city (supermarket e) = c"

definition findFirst :: "inventory list \<Rightarrow> string \<Rightarrow> string \<Rightarrow> inventory option" where
  "findFirst tbl pid c =
     (case sort_key price (filter (offer pid c) tbl) of [] \<Rightarrow> None | e # es \<Rightarrow> Some e)"

text \<open>
  The shopping list hands the same query values of the request body. The schema of the
  store is not part of the sources; the handlers of products and inventory look rows up
  by the strings of the request path, so ids are strings, as cities are. For a string
  column the store takes an undefined value as no condition, a string as equality, and an
  object as one of its filters, whose reading is the parameter \<open>stringFilter\<close>
  (\<open>None\<close> for an object that is no filter); it refuses \<open>null\<close>, a boolean, a number and
  an array, and then the query throws.
\<close>

datatype stringWhere = Unconstrained | Equals string | Filter "string \<Rightarrow> bool"

definition stringArgument ::
  "((string \<times> json) list \<Rightarrow> (string \<Rightarrow> bool) option) \<Rightarrow> json option \<Rightarrow> stringWhere option" where
  "stringArgument stringFilter v =
     (case v of
        None \<Rightarrow> Some Unconstrained
      | Some (JString s) \<Rightarrow> Some (Equals s)
      | Some (JObject members) \<Rightarrow> map_option Filter (stringFilter members)
      | Some _ \<Rightarrow> None)"

fun admits :: "stringWhere \<Rightarrow> string \<Rightarrow> bool" where
  "admits Unconstrained x = True"
| "admits (Equals s) x = (x = s)"
| "admits (Filter p) x = p x"

fun interpolate :: "stringWhere \<Rightarrow> string" where
  \<comment> \<open>the text a template literal makes of the value\<close>
  "interpolate Unconstrained = ''undefined''"
| "interpolate (Equals s) = s"
| "interpolate (Filter p) = ''[object Object]''"

definition lineOffer :: "stringWhere \<Rightarrow> stringWhere \<Rightarrow> inventory \<Rightarrow> bool" where
  "lineOffer pid c e \<longleftrightarrow>
     admits pid (productId (product e)) \<and> inStock e \<and> admits c (city (supermarket e))"

definition findFirstWhere :: "inventory list \<Rightarrow> (inventory \<Rightarrow> bool) \<Rightarrow> inventory option" where
  "findFirstWhere tbl p =
     (case sort_key price (filter p tbl) of [] \<Rightarrow> None | e # es \<Rightarrow> Some e)"

section \<open>POST /shoppingList\<close>

text \<open>
  The handler takes \<open>city\<close> and \<open>shoppingItems\<close> from the body and checks neither. Its
  \<open>try\<close> block is a function with an optional result, \<open>None\<close> when a statement of the
  block throws: the loop over a value that is not iterable, the reading of a property of
  \<open>null\<close>, a query that the store refuses. The first of these ends the block, and the
  lines priced before it are lost. Arithmetic, \<open>toFixed\<close> and \<open>parseFloat\<close> never throw. The
  \<open>catch\<close> block answers 500. The date of the response is a parameter. The body is an
  object, as the handler takes its two properties before the \<open>try\<close> block. The
  documentation of the route gives \<open>productId\<close> and \<open>quantity\<close> the type integer.
\<close>

record shoppingListBody =
  body_city :: "json option"
  body_shoppingItems :: "json option"

record pricedItem =
  line_productName :: string
  line_supermarketName :: string
  line_quantity :: "json option"
  lowestPrice :: number
  subtotal :: number

record shoppingList =
  userEmail :: string
  currentDate :: nat
  list_city :: "json option"
  shoppingItems :: "pricedItem list"
  list_total :: number

definition lineQuery ::
  "((string \<times> json) list \<Rightarrow> (string \<Rightarrow> bool) option) \<Rightarrow> json option \<Rightarrow> json \<Rightarrow>
     (stringWhere \<times> stringWhere) option" where
  \<comment> \<open>the \<open>where\<close> of the query for a line: the product id and the city as the store reads
      them, or \<open>None\<close> when building or checking the query throws\<close>
  "lineQuery stringFilter c item =
     (case item of
        JNull \<Rightarrow> None
      | _ \<Rightarrow>
          (case (stringArgument stringFilter (property item ''productId''),
                 stringArgument stringFilter c) of
             (Some pid, Some cw) \<Rightarrow> Some (pid, cw)
           | _ \<Rightarrow> None))"

definition priceItem ::
  "((string \<times> json) list \<Rightarrow> (string \<Rightarrow> bool) option) \<Rightarrow> (json \<Rightarrow> number) \<Rightarrow> inventory list \<Rightarrow>
     json option \<Rightarrow> json \<Rightarrow> pricedItem option" where
  \<comment> \<open>the body of the loop over \<open>shoppingItems\<close>\<close>
  "priceItem stringFilter coerce tbl c item =
     (case lineQuery stringFilter c item of
        None \<Rightarrow> None
      | Some (pid, cw) \<Rightarrow>
          Some
            (case findFirstWhere tbl (lineOffer pid cw) of
               Some inventoryItem \<Rightarrow>
                 \<lparr> line_productName = productName (product inventoryItem),
                   line_supermarketName = supermarketName (supermarket inventoryItem),
                   line_quantity = property item ''quantity'',
                   lowestPrice = Finite (price inventoryItem),
                   subtotal =
                     parseFloat
                       (toFixed
                          (js_times (Finite (price inventoryItem))
                             (toNumber coerce (property item ''quantity''))) 2) \<rparr>
             | None \<Rightarrow>
                 \<lparr> line_productName =
                     ''Product with ID '' @ interpolate pid @ '' not found in '' @ interpolate cw,
                   line_supermarketName = ''N/A'',
                   line_quantity = property item ''quantity'',
                   lowestPrice = Finite 0,
                   subtotal = Finite 0 \<rparr>))"

fun priceItems ::
  "((string \<times> json) list \<Rightarrow> (string \<Rightarrow> bool) option) \<Rightarrow> (json \<Rightarrow> number) \<Rightarrow> inventory list \<Rightarrow>
     json option \<Rightarrow> json list \<Rightarrow> pricedItem list \<Rightarrow> pricedItem list option" where
  \<comment> \<open>the loop, pushing each priced line onto \<open>shoppingItemsWithPrices\<close>\<close>
  "priceItems stringFilter coerce tbl c [] shoppingItemsWithPrices = Some shoppingItemsWithPrices"
| "priceItems stringFilter coerce tbl c (item # items) shoppingItemsWithPrices =
     (case priceItem stringFilter coerce tbl c item of
        None \<Rightarrow> None
      | Some line \<Rightarrow>
          priceItems stringFilter coerce tbl c items (shoppingItemsWithPrices @ [line]))"

definition sumSubtotals :: "pricedItem list \<Rightarrow> number" where
  \<comment> \<open>\<open>reduce((accumulator, currentItem) => accumulator + currentItem.subtotal, 0)\<close>\<close>
  "sumSubtotals ls = foldl (\<lambda>accumulator currentItem. js_plus accumulator (subtotal currentItem)) (Finite 0) ls"

definition shoppingList_try ::
  "((string \<times> json) list \<Rightarrow> (string \<Rightarrow> bool) option) \<Rightarrow> (json \<Rightarrow> number) \<Rightarrow> store \<Rightarrow> user \<Rightarrow> nat \<Rightarrow>
     shoppingListBody \<Rightarrow> shoppingList option" where
  "shoppingList_try stringFilter coerce s u now b =
     (case iterate (body_shoppingItems b) of
        None \<Rightarrow> None
      | Some items \<Rightarrow>
          (case priceItems stringFilter coerce (inventories s) (body_city b) items [] of
             None \<Rightarrow> None
           | Some shoppingItemsWithPrices \<Rightarrow>
               Some \<lparr> userEmail = email u, currentDate = now, list_city = body_city b,
                      shoppingItems = shoppingItemsWithPrices,
                      list_total = parseFloat (toFixed (sumSubtotals shoppingItemsWithPrices) 2) \<rparr>))"

definition shoppingList_post ::
  "((string \<times> json) list \<Rightarrow> (string \<Rightarrow> bool) option) \<Rightarrow> (json \<Rightarrow> number) \<Rightarrow> store \<Rightarrow> user \<Rightarrow> nat \<Rightarrow>
     shoppingListBody \<Rightarrow> shoppingList response" where
  "shoppingList_post stringFilter coerce s u now b =
     (case shoppingList_try stringFilter coerce s u now b of
        Some r \<Rightarrow> Response 201 (Json r)
      | None \<Rightarrow> Response 500 (Error ''An error occurred while creating the shopping list.''))"

section \<open>GET /inventory/cheapest/:productId/:city\<close>

record modifier =
  modifier_email :: string
  modifier_userId :: string

text \<open>
  The selected fields of the cheapest listing. \<open>updatedAt\<close> and \<open>updatedBy\<close> are selected
  for an ADMIN only; a field that is not selected is absent from the response (\<open>None\<close>).
\<close>

record cheapestListing =
  listing_price :: real
  listing_inStock :: bool
  listing_updatedAt :: "nat option"
  listing_updatedBy :: "modifier option"
  listing_supermarketName :: string
  listing_productName :: string

definition allowedRoles :: "string list" where
  "allowedRoles = [''BASIC'', ''VERIFIED'', ''ADMIN'']"

definition select_listing :: "user \<Rightarrow> inventory \<Rightarrow> cheapestListing" where
  "select_listing u e =
     \<lparr> listing_price = price e,
       listing_inStock = inStock e,
       listing_updatedAt = (if role u = ''ADMIN'' then Some (updatedAt e) else None),
       listing_updatedBy =
         (if role u = ''ADMIN''
          then Some \<lparr> modifier_email = email (updatedBy e), modifier_userId = userId (updatedBy e) \<rparr>
          else None),
       listing_supermarketName = supermarketName (supermarket e),
       listing_productName = productName (product e) \<rparr>"

definition inventory_cheapest :: "store \<Rightarrow> user \<Rightarrow> string \<Rightarrow> string \<Rightarrow> cheapestListing response" where
  "inventory_cheapest s u pid c =
     (if role u \<notin> set allowedRoles then Response 403 (Message ''Insufficient permissions.'')
      else case findFirst (inventories s) pid c of
             None \<Rightarrow> Response 404 (Message ''No listing found for the given product and city.'')
           | Some cheapestListing \<Rightarrow> Response 200 (Json (select_listing u cheapestListing)))"

section \<open>POST /products and PATCH /products/:id\<close>

text \<open>
  The callers of these handlers have passed \<open>authGuard\<close>, which gives the handler
  \<open>req.user\<close>; the user row that \<open>connect: { userId }\<close> refers to is the caller's.
  The schema of the store is not part of the sources. What the handlers show of it:
  \<open>productName\<close> is a unique field (\<open>findUnique\<close> takes it as its key), \<open>productId\<close> is the
  key, and \<open>productCategory\<close> is the enumeration \<open>ProductCategory\<close>, whose members are a
  parameter here. A write that breaks one of these is refused by the store: the query
  throws, and the handler answers 500 with the store as it was. The id of a new row and
  the time stamp of a write are given by the store and are parameters too.
\<close>

record productBody =
  body_productName :: string
  body_productCategory :: string
  body_productComments :: string

definition product_create ::
  "string list \<Rightarrow> product list \<Rightarrow> product \<Rightarrow> product list option" where
  \<comment> \<open>\<open>prisma.product.create\<close>\<close>
  "product_create ProductCategory tbl p =
     (if productCategory p \<notin> set ProductCategory then None
      else if \<exists>q\<in>set tbl. productId q = productId p \<or> productName q = productName p then None
      else Some (tbl @ [p]))"

definition product_post ::
  "string list \<Rightarrow> store \<Rightarrow> user \<Rightarrow> productBody \<Rightarrow> string \<Rightarrow> nat \<Rightarrow> store \<times> product response" where
  "product_post ProductCategory s u b newId now =
     (if role u \<noteq> ''VERIFIED'' \<and> role u \<noteq> ''ADMIN''
      then (s, Response 403 (Message ''Insufficient permissions.''))
      else case find (\<lambda>p. productName p = body_productName b) (products s) of
             Some existingProduct \<Rightarrow>
               (s, Response 400 (Message
                  ''The product you entered already exists in the database. If you want to update the price, please use the 'update' feature.''))
           | None \<Rightarrow>
               (let newProduct =
                      \<lparr> productId = newId,
                        productName = body_productName b,
                        productCategory = body_productCategory b,
                        productComments = body_productComments b,
                        product_createdBy = userId u,
                        product_updatedBy = userId u,
                        product_updatedAt = now \<rparr>
                in case product_create ProductCategory (products s) newProduct of
                     None \<Rightarrow> (s, Response 500 (Error ''An error occurred while creating the product.''))
                   | Some tbl \<Rightarrow> (s\<lparr>products := tbl\<rparr>, Response 201 (Json newProduct))))"

text \<open>
  The body of a PATCH may leave any field out (\<open>None\<close>). The handler takes a field over
  into \<open>updateData\<close> when it is truthy: present and not the empty string.
\<close>

record productPatch =
  patch_productName :: "string option"
  patch_productCategory :: "string option"
  patch_productComments :: "string option"

record productUpdateData =
  data_productName :: "string option"
  data_productCategory :: "string option"
  data_productComments :: "string option"
  data_updatedBy :: string

definition truthy :: "string option \<Rightarrow> bool" where
  "truthy v = (case v of None \<Rightarrow> False | Some x \<Rightarrow> x \<noteq> [])"

definition apply_productUpdateData :: "productUpdateData \<Rightarrow> nat \<Rightarrow> product \<Rightarrow> product" where
  "apply_productUpdateData d now p =
     p\<lparr> productName := (case data_productName d of None \<Rightarrow> productName p | Some x \<Rightarrow> x),
        productCategory := (case data_productCategory d of None \<Rightarrow> productCategory p | Some x \<Rightarrow> x),
        productComments := (case data_productComments d of None \<Rightarrow> productComments p | Some x \<Rightarrow> x),
        product_updatedBy := data_updatedBy d,
        product_updatedAt := now \<rparr>"

definition update_product ::
  "string list \<Rightarrow> product list \<Rightarrow> string \<Rightarrow> productUpdateData \<Rightarrow> nat \<Rightarrow> (product list \<times> product) option" where
  \<comment> \<open>\<open>prisma.product.update\<close> with \<open>where: { productId: id }\<close>\<close>
  "update_product ProductCategory tbl ident d now =
     (case find (\<lambda>p. productId p = ident) tbl of
        None \<Rightarrow> None
      | Some p \<Rightarrow>
          if (case data_productCategory d of None \<Rightarrow> False | Some x \<Rightarrow> x \<notin> set ProductCategory) then None
          else if (case data_productName d of None \<Rightarrow> False
                   | Some x \<Rightarrow> \<exists>q\<in>set tbl. productId q \<noteq> ident \<and> productName q = x) then None
          else let p' = apply_productUpdateData d now p
               in Some (map (\<lambda>q. if productId q = ident then p' else q) tbl, p'))"

record productView =
  view_productId :: string
  view_productName :: string
  view_productCategory :: string
  view_productComments :: string
  view_updatedAt :: nat
  view_updatedBy :: modifier

definition product_patch ::
  "string list \<Rightarrow> store \<Rightarrow> user \<Rightarrow> string \<Rightarrow> productPatch \<Rightarrow> nat \<Rightarrow> store \<times> productView response" where
  "product_patch ProductCategory s u ident b now =
     (if role u \<noteq> ''VERIFIED'' \<and> role u \<noteq> ''ADMIN''
      then (s, Response 403 (Message ''Insufficient permissions.''))
      else
        let updateData =
              \<lparr> data_productName = None, data_productCategory = None, data_productComments = None,
                data_updatedBy = userId u \<rparr>;
            updateData =
              (if role u = ''ADMIN''
               then updateData
                      \<lparr> data_productName :=
                          (if truthy (patch_productName b) then patch_productName b else None),
                        data_productCategory :=
                          (if truthy (patch_productCategory b) then patch_productCategory b else None),
                        data_productComments :=
                          (if truthy (patch_productComments b) then patch_productComments b else None) \<rparr>
               else updateData)
        in case update_product ProductCategory (products s) ident updateData now of
             None \<Rightarrow> (s, Response 500 (Error ''An error occurred while updating the product.''))
           | Some (tbl, updatedProduct) \<Rightarrow>
               (s\<lparr> products := tbl,
                   inventories :=
                     map (\<lambda>e. if productId (product e) = ident then e\<lparr>product := updatedProduct\<rparr> else e)
                       (inventories s) \<rparr>,
                Response 200 (Json
                  \<lparr> view_productId = productId updatedProduct,
                    view_productName = productName updatedProduct,
                    view_productCategory = productCategory updatedProduct,
                    view_productComments = productComments updatedProduct,
                    view_updatedAt = product_updatedAt updatedProduct,
                    view_updatedBy = \<lparr> modifier_email = email u, modifier_userId = userId u \<rparr> \<rparr>)))"

section \<open>PATCH /supermarket/:id\<close>

text \<open>
  \<open>prisma.supermarket.update\<close> leaves a column alone whose value in \<open>data\<close> is undefined, that
  is, when the body has no such field. It throws when no row has the id.
\<close>

record supermarketPatch =
  patch_supermarketName :: "string option"
  patch_supermarketComments :: "string option"
  patch_city :: "string option"

definition update_supermarket ::
  "supermarket list \<Rightarrow> string \<Rightarrow> supermarketPatch \<Rightarrow> string \<Rightarrow> nat \<Rightarrow> (supermarket list \<times> supermarket) option" where
  "update_supermarket tbl ident b uid now =
     (case find (\<lambda>m. supermarketId m = ident) tbl of
        None \<Rightarrow> None
      | Some m \<Rightarrow>
          let m' = m\<lparr> supermarketName :=
                         (case patch_supermarketName b of None \<Rightarrow> supermarketName m | Some x \<Rightarrow> x),
                       supermarketComments :=
                         (case patch_supermarketComments b of None \<Rightarrow> supermarketComments m | Some x \<Rightarrow> x),
                       city := (case patch_city b of None \<Rightarrow> city m | Some x \<Rightarrow> x),
                       supermarket_updatedBy := uid,
                       supermarket_updatedAt := now \<rparr>
          in Some (map (\<lambda>q. if supermarketId q = ident then m' else q) tbl, m'))"

definition supermarket_patch ::
  "store \<Rightarrow> user \<Rightarrow> string \<Rightarrow> supermarketPatch \<Rightarrow> nat \<Rightarrow> store \<times> supermarket response" where
  "supermarket_patch s u ident b now =
     (if role u \<noteq> ''ADMIN'' then (s, Response 403 (Message ''Insufficient permissions.''))
      else case update_supermarket (supermarkets s) ident b (userId u) now of
             None \<Rightarrow> (s, Response 500 (Error ''An error occurred while updating the supermarket.''))
           | Some (tbl, updatedSupermarket) \<Rightarrow>
               (s\<lparr> supermarkets := tbl,
                   inventories :=
                     map (\<lambda>e. if supermarketId (supermarket e) = ident
                              then e\<lparr>supermarket := updatedSupermarket\<rparr> else e)
                       (inventories s) \<rparr>,
                Response 200 (Json updatedSupermarket)))"

section \<open>Rounding as the specification words it\<close>

text \<open>
  Round-half-up to \<open>f\<close> decimal places of an exact value: the nearest multiple of
  \<open>10^-f\<close>, a value half-way between two of them going to the one larger in magnitude.
\<close>

definition round_half_up :: "real \<Rightarrow> nat \<Rightarrow> real" where
  "round_half_up x f = (if x < 0 then - 1 else 1) * (of_int \<lfloor>\<bar>x\<bar> * 10 ^ f + 1 / 2\<rfloor> / 10 ^ f)"

text \<open>
  Round-half-up of a JavaScript number: the binary64 number nearest to the rounding of
  its value; a number that is not finite has no decimal places and stays as it is.
\<close>

definition rounded :: "number \<Rightarrow> nat \<Rightarrow> number" where
  "rounded x f = (case x of Finite y \<Rightarrow> binary64 (round_half_up y f) | z \<Rightarrow> z)"


text \<open>
  The order of JavaScript numbers, as \<open><=\<close> compares them: \<open>NaN\<close> is comparable with no
  number.
\<close>

fun at_most :: "number \<Rightarrow> number \<Rightarrow> bool" where
  "at_most (Finite x) (Finite y) = (x \<le> y)"
| "at_most NaN b = False"
| "at_most a NaN = False"
| "at_most NegInf b = True"
| "at_most a PosInf = True"
| "at_most PosInf b = False"
| "at_most a NegInf = False"


text \<open>Two inventory rows that differ at most in \<open>updatedAt\<close> and \<open>updatedBy\<close>.\<close>

definition audit_variant :: "inventory \<Rightarrow> inventory \<Rightarrow> bool" where
  "audit_variant e e' \<longleftrightarrow>
     price e' = price e \<and> inStock e' = inStock e \<and> supermarket e' = supermarket e \<and> product e' = product e"

section \<open>A store for the examples\<close>

definition alice :: user where
  "alice = \<lparr> userId = ''u1'', email = ''alice@example.com'', role = ''ADMIN'' \<rparr>"

definition bob :: user where
  "bob = \<lparr> userId = ''u2'', email = ''bob@example.com'', role = ''VERIFIED'' \<rparr>"

definition carol :: user where
  "carol = \<lparr> userId = ''u3'', email = ''carol@example.com'', role = ''BASIC'' \<rparr>"

definition milk :: product where
  "milk = \<lparr> productId = ''P1'', productName = ''Milk'', productCategory = ''DAIRY'',
     productComments = ''1 l'', product_createdBy = ''u1'', product_updatedBy = ''u1'',
     product_updatedAt = 10 \<rparr>"

definition bread :: product where
  "bread = \<lparr> productId = ''P2'', productName = ''Bread'', productCategory = ''BAKERY'',
     productComments = ''sliced'', product_createdBy = ''u2'', product_updatedBy = ''u1'',
     product_updatedAt = 11 \<rparr>"

definition gum :: product where
  "gum = \<lparr> productId = ''P3'', productName = ''Gum'', productCategory = ''SNACKS'',
     productComments = ''one piece'', product_createdBy = ''u2'', product_updatedBy = ''u2'',
     product_updatedAt = 12 \<rparr>"

definition freshMart :: supermarket where
  "freshMart = \<lparr> supermarketId = ''S1'', supermarketName = ''Fresh Mart'',
     supermarketComments = ''open late'', city = ''New York'', supermarket_createdBy = ''u1'',
     supermarket_updatedBy = ''u1'', supermarket_updatedAt = 20 \<rparr>"

definition cityGrocer :: supermarket where
  "cityGrocer = \<lparr> supermarketId = ''S2'', supermarketName = ''City Grocer'',
     supermarketComments = ''no notes'', city = ''New York'', supermarket_createdBy = ''u1'',
     supermarket_updatedBy = ''u1'', supermarket_updatedAt = 21 \<rparr>"

definition cornerShop :: supermarket where
  "cornerShop = \<lparr> supermarketId = ''S3'', supermarketName = ''Corner Shop'',
     supermarketComments = ''no notes'', city = ''New York'', supermarket_createdBy = ''u1'',
     supermarket_updatedBy = ''u1'', supermarket_updatedAt = 22 \<rparr>"

definition harborFoods :: supermarket where
  "harborFoods = \<lparr> supermarketId = ''S4'', supermarketName = ''Harbor Foods'',
     supermarketComments = ''no notes'', city = ''Boston'', supermarket_createdBy = ''u1'',
     supermarket_updatedBy = ''u1'', supermarket_updatedAt = 23 \<rparr>"

text \<open>
  The price of the gum is the binary64 number that \<open>0.005\<close> denotes; the other prices are
  binary64 numbers as they stand.
\<close>

definition exampleInventories :: "inventory list" where
  "exampleInventories =
     [ \<lparr> price = 17 / 4, inStock = True, updatedAt = 30, updatedBy = bob,
         supermarket = cityGrocer, product = milk \<rparr>,
       \<lparr> price = 7 / 2, inStock = True, updatedAt = 31, updatedBy = alice,
         supermarket = freshMart, product = milk \<rparr>,
       \<lparr> price = 2, inStock = False, updatedAt = 32, updatedBy = bob,
         supermarket = cornerShop, product = milk \<rparr>,
       \<lparr> price = 1, inStock = True, updatedAt = 33, updatedBy = bob,
         supermarket = harborFoods, product = milk \<rparr>,
       \<lparr> price = 3, inStock = True, updatedAt = 34, updatedBy = bob,
         supermarket = harborFoods, product = bread \<rparr>,
       \<lparr> price = 5764607523034235 / 1152921504606846976, inStock = True, updatedAt = 35,
         updatedBy = alice, supermarket = freshMart, product = gum \<rparr> ]"

definition exampleStore :: store where
  "exampleStore = \<lparr> products = [milk, bread, gum],
     supermarkets = [freshMart, cityGrocer, cornerShop, harborFoods],
     inventories = exampleInventories \<rparr>"

text \<open>The same store with other audit data on every inventory row.\<close>

definition reauditedStore :: store where
  "reauditedStore =
     exampleStore\<lparr> inventories := map (\<lambda>e. e\<lparr> updatedAt := 99, updatedBy := carol \<rparr>) exampleInventories \<rparr>"

text \<open>Request bodies.\<close>

definition milkAgain :: productBody where
  "milkAgain = \<lparr> body_productName = ''Milk'', body_productCategory = ''DAIRY'',
     body_productComments = ''2 l'' \<rparr>"

definition eggs :: productBody where
  "eggs = \<lparr> body_productName = ''Eggs'', body_productCategory = ''DAIRY'',
     body_productComments = ''a dozen'' \<rparr>"

definition oatMilk :: productPatch where
  "oatMilk = \<lparr> patch_productName = Some ''Oat milk'', patch_productCategory = None,
     patch_productComments = None \<rparr>"

definition toBoston :: supermarketPatch where
  "toBoston = \<lparr> patch_supermarketName = None, patch_supermarketComments = None,
     patch_city = Some ''Boston'' \<rparr>"

text \<open>
  Requests for a shopping list in New York. In the examples the store reads no object as
  a filter, and a string or an array gives no number.
\<close>

definition noFilters :: "(string \<times> json) list \<Rightarrow> (string \<Rightarrow> bool) option" where
  "noFilters members = None"

definition noCoercion :: "json \<Rightarrow> number" where
  "noCoercion j = NaN"

definition orderLine :: "json \<Rightarrow> real \<Rightarrow> json" where
  "orderLine pid q = JObject [(''productId'', pid), (''quantity'', JNumber (Finite q))]"

definition request :: "json list \<Rightarrow> shoppingListBody" where
  "request items = \<lparr> body_city = Some (JString ''New York''), body_shoppingItems = Some (JArray items) \<rparr>"




definition exampleCategories :: "string list" where
  "exampleCategories = [''DAIRY'', ''BAKERY'', ''SNACKS'']"

section \<open>Evaluating the examples\<close>

lemma bitlen_numeral_simps:
  "bitlen 1 = 1"
  "bitlen (numeral (Num.Bit0 k)) = bitlen (numeral k) + 1"
  "bitlen (numeral (Num.Bit1 k)) = bitlen (numeral k) + 1"
  "bitlen (numeral Num.One) = 1"
  by (subst compute_bitlen, simp)+

lemmas binary64_eval = binary64_def floor_log2_def round_half_even_def Let_def bitlen_numeral_simps

lemmas example_defs = exampleStore_def exampleInventories_def alice_def bob_def carol_def
  milk_def bread_def gum_def freshMart_def cityGrocer_def cornerShop_def harborFoods_def

section \<open>Properties of the number model\<close>

text \<open>
  \<open>floor_log2\<close> brackets its argument between two neighbouring powers of two;
  \<open>binary64\<close> returns a value within half a unit in the last place of its argument,
  and returns a value it has returned unchanged.
\<close>

lemma floor_log2_bounds:
  assumes "0 < x"
  shows "2 powi floor_log2 x \<le> x" and "x < 2 powi (floor_log2 x + 1)"
proof -
  have "2 powi floor_log2 x \<le> x \<and> x < 2 powi (floor_log2 x + 1)"
  proof (cases "1 \<le> x")
    case True
    define m where "m = \<lfloor>x\<rfloor>"
    from True have m: "0 < m" by (simp add: m_def)
    then have b1: "1 \<le> bitlen m" by (simp add: bitlen_alt_def)
    from bitlen_bounds [OF m] have lo: "2 ^ nat (bitlen m - 1) \<le> m" and hi: "m < 2 ^ nat (bitlen m)"
      by simp_all
    have fl: "floor_log2 x = bitlen m - 1"
      using True by (simp add: floor_log2_def m_def)
    have "(2::real) powi (bitlen m - 1) = 2 ^ nat (bitlen m - 1)"
      using b1 by (simp add: power_int_def)
    also have "\<dots> \<le> of_int m"
      using lo by (metis of_int_le_iff of_int_numeral of_int_power)
    also have "\<dots> \<le> x" by (simp add: m_def)
    finally have A: "2 powi floor_log2 x \<le> x" by (simp add: fl)
    from hi have "m + 1 \<le> 2 ^ nat (bitlen m)" by simp
    then have "real_of_int (m + 1) \<le> 2 ^ nat (bitlen m)"
      by (metis of_int_le_iff of_int_numeral of_int_power)
    moreover have "x < real_of_int (m + 1)" by (simp add: m_def)
    ultimately have "x < 2 ^ nat (bitlen m)" by linarith
    moreover have "(2::real) powi (bitlen m - 1 + 1) = 2 ^ nat (bitlen m)"
      using b1 by (simp add: power_int_def)
    ultimately have B: "x < 2 powi (floor_log2 x + 1)" by (simp add: fl)
    from A B show ?thesis ..
  next
    case False
    define y where "y = 1 / x"
    define m where "m = \<lceil>y\<rceil>"
    define j where "j = bitlen (m - 1)"
    from False assms have y1: "1 < y" by (simp add: y_def)
    then have m2: "2 \<le> m" unfolding m_def by linarith
    then have m1: "0 < m - 1" by simp
    then have j1: "1 \<le> j" by (simp add: j_def bitlen_alt_def)
    from bitlen_bounds [OF m1] have lo: "2 ^ nat (j - 1) \<le> m - 1" and hi: "m - 1 < 2 ^ nat j"
      by (simp_all add: j_def)
    have fl: "floor_log2 x = - j"
      using False by (simp add: floor_log2_def j_def m_def y_def)
    from hi have "m \<le> 2 ^ nat j" by simp
    then have "real_of_int m \<le> 2 ^ nat j"
      by (metis of_int_le_iff of_int_numeral of_int_power)
    moreover have "y \<le> real_of_int m" by (simp add: m_def)
    ultimately have "y \<le> 2 ^ nat j" by linarith
    then have "1 / 2 ^ nat j \<le> x"
      using assms by (simp add: y_def field_simps)
    moreover have "(2::real) powi (- j) = 1 / 2 ^ nat j"
      using j1 by (simp add: power_int_def field_simps)
    ultimately have A: "2 powi floor_log2 x \<le> x" by (simp add: fl)
    have "real_of_int (2 ^ nat (j - 1)) \<le> real_of_int (m - 1)"
      using lo by (simp only: of_int_le_iff)
    then have "(2::real) ^ nat (j - 1) \<le> real_of_int (m - 1)" by simp
    moreover have "real_of_int (m - 1) < y" unfolding m_def by linarith
    ultimately have "(2::real) ^ nat (j - 1) < y" by linarith
    then have "x < 1 / 2 ^ nat (j - 1)"
      using assms by (simp add: y_def field_simps)
    moreover have "(2::real) powi (- j + 1) = 1 / 2 ^ nat (j - 1)"
    proof -
      have "- j + 1 = - (j - 1)" by simp
      then have "(2::real) powi (- j + 1) = 2 powi (- (j - 1))" by simp
      also have "\<dots> = inverse (2 powi (j - 1))" by (simp only: power_int_minus)
      also have "\<dots> = 1 / 2 ^ nat (j - 1)"
        using j1 by (simp add: power_int_def field_simps)
      finally show ?thesis .
    qed
    ultimately have B: "x < 2 powi (floor_log2 x + 1)" by (simp add: fl)
    from A B show ?thesis ..
  qed
  then show "2 powi floor_log2 x \<le> x" and "x < 2 powi (floor_log2 x + 1)" by simp_all
qed

lemma floor_log2_unique:
  assumes "0 < x" and "2 powi k \<le> x" and "x < 2 powi (k + 1)"
  shows "floor_log2 x = k"
proof -
  note b = floor_log2_bounds [OF assms(1)]
  have "floor_log2 x < k + 1"
  proof (rule ccontr)
    assume "\<not> floor_log2 x < k + 1"
    then have "(2::real) powi (k + 1) \<le> 2 powi floor_log2 x"
      by (intro power_int_increasing) simp_all
    with b(1) assms(3) show False by linarith
  qed
  moreover have "k < floor_log2 x + 1"
  proof (rule ccontr)
    assume "\<not> k < floor_log2 x + 1"
    then have "(2::real) powi (floor_log2 x + 1) \<le> 2 powi k"
      by (intro power_int_increasing) simp_all
    with b(2) assms(2) show False by linarith
  qed
  ultimately show ?thesis by simp
qed

lemma floor_log2_less:
  assumes "0 < x" and "x < 2 powi k"
  shows "floor_log2 x < k"
proof (rule ccontr)
  assume "\<not> floor_log2 x < k"
  then have "(2::real) powi k \<le> 2 powi floor_log2 x"
    by (intro power_int_increasing) simp_all
  with floor_log2_bounds(1) [OF assms(1)] assms(2) show False by linarith
qed

lemma round_half_even_error: "\<bar>of_int (round_half_even y) - y\<bar> \<le> 1 / 2"
proof -
  have "of_int \<lfloor>y\<rfloor> \<le> y" "y < of_int \<lfloor>y\<rfloor> + 1" by linarith+
  then show ?thesis
    by (auto simp: round_half_even_def Let_def)
qed

lemma round_half_even_of_int: "round_half_even (of_int n) = n"
  by (simp add: round_half_even_def)

lemma binary64_error:
  assumes "binary64 x = Finite y"
  shows "\<bar>y - x\<bar> \<le> 2 powi (max (floor_log2 \<bar>x\<bar> - 52) (- 1074)) / 2"
proof (cases "x = 0")
  case True
  with assms show ?thesis by (simp add: binary64_def)
next
  case False
  define e where "e = max (floor_log2 \<bar>x\<bar> - 52) (- 1074)"
  define n where "n = round_half_even (x / 2 powi e)"
  have p: "0 < (2::real) powi e" by simp
  from assms False have y: "y = of_int n * 2 powi e"
    by (simp add: binary64_def Let_def e_def n_def split: if_splits)
  have "y - x = (of_int n - x / 2 powi e) * 2 powi e"
    using p by (simp add: y field_simps)
  then have "\<bar>y - x\<bar> = \<bar>of_int n - x / 2 powi e\<bar> * 2 powi e"
    using p by (simp add: abs_mult)
  also have "\<dots> \<le> 1 / 2 * 2 powi e"
    using round_half_even_error [of "x / 2 powi e"] p
    by (intro mult_right_mono) (simp_all add: n_def)
  finally show ?thesis by (simp add: e_def)
qed

lemma binary64_grid:
  assumes y: "y = of_int m * 2 powi k"
    and m: "m \<noteq> 0" "\<bar>m\<bar> < 2 ^ 53"
    and k: "- 1074 \<le> k" "k \<le> 971"
    and norm: "2 ^ 52 \<le> \<bar>m\<bar> \<or> k = - 1074"
  shows "binary64 y = Finite y"
proof -
  have p: "0 < (2::real) powi k" by simp
  from m(1) have y0: "y \<noteq> 0" by (simp add: y)
  have ay: "\<bar>y\<bar> = of_int \<bar>m\<bar> * 2 powi k"
    by (simp add: y abs_mult)
  have am: "real_of_int \<bar>m\<bar> < 2 ^ 53"
    using m(2) by (metis of_int_less_iff of_int_numeral of_int_power)
  have e: "max (floor_log2 \<bar>y\<bar> - 52) (- 1074) = k"
  proof (cases "2 ^ 52 \<le> \<bar>m\<bar>")
    case True
    then have "(2::real) ^ 52 \<le> of_int \<bar>m\<bar>"
      by (metis of_int_le_iff of_int_numeral of_int_power)
    then have "2 ^ 52 * 2 powi k \<le> \<bar>y\<bar>"
      using p by (simp add: ay)
    moreover have "(2::real) powi (52 + k) = 2 ^ 52 * 2 powi k"
      by (simp add: power_int_add)
    ultimately have lo: "2 powi (52 + k) \<le> \<bar>y\<bar>" by simp
    have "\<bar>y\<bar> < 2 ^ 53 * 2 powi k"
      using am p by (simp add: ay)
    moreover have "(2::real) powi (52 + k + 1) = 2 ^ 53 * 2 powi k"
    proof -
      have "52 + k + 1 = 53 + k" by simp
      then show ?thesis by (simp add: power_int_add)
    qed
    ultimately have hi: "\<bar>y\<bar> < 2 powi (52 + k + 1)" by simp
    from y0 have "0 < \<bar>y\<bar>" by simp
    from floor_log2_unique [OF this lo hi] k(1) show ?thesis by simp
  next
    case False
    with norm have k': "k = - 1074" by simp
    from False have "\<bar>m\<bar> < 2 ^ 52" by simp
    then have "real_of_int \<bar>m\<bar> < 2 ^ 52"
      by (metis of_int_less_iff of_int_numeral of_int_power)
    then have "\<bar>y\<bar> < 2 ^ 52 * 2 powi k"
      using p by (simp add: ay)
    moreover have "(2::real) powi (52 + k) = 2 ^ 52 * 2 powi k"
      by (simp add: power_int_add)
    ultimately have "\<bar>y\<bar> < 2 powi (52 + k)" by simp
    moreover from y0 have "0 < \<bar>y\<bar>" by simp
    ultimately have "floor_log2 \<bar>y\<bar> < 52 + k" by (rule floor_log2_less [rotated])
    then show ?thesis by (simp add: k')
  qed
  have q: "y / 2 powi k = of_int m"
    using p by (simp add: y)
  have r: "round_half_even (y / 2 powi k) = m"
    by (simp only: q round_half_even_of_int)
  have "\<not> (971 < k \<or> (k = 971 \<and> 2 ^ 53 \<le> \<bar>m\<bar>))"
    using k(2) m(2) by simp
  then have "binary64 y = Finite (of_int m * 2 powi k)"
    using y0 by (simp add: binary64_def Let_def e r)
  then show ?thesis by (simp only: y)
qed

lemma binary64_Finite_cases:
  assumes "binary64 x = Finite y"
  obtains "y = 0"
  | m k where "y = of_int m * 2 powi k" "m \<noteq> 0" "\<bar>m\<bar> < 2 ^ 53" "- 1074 \<le> k" "k \<le> 971"
      "2 ^ 52 \<le> \<bar>m\<bar> \<or> k = - 1074"
proof (cases "x = 0")
  case True
  with assms have "y = 0" by (simp add: binary64_def)
  then show ?thesis by (rule that(1))
next
  case False
  define e where "e = max (floor_log2 \<bar>x\<bar> - 52) (- 1074)"
  define v where "v = x / 2 powi e"
  define n where "n = round_half_even v"
  have p: "0 < (2::real) powi e" by simp
  have b: "binary64 x =
      (if 971 < e \<or> (e = 971 \<and> 2 ^ 53 \<le> \<bar>n\<bar>) then (if 0 < x then PosInf else NegInf)
       else Finite (of_int n * 2 powi e))"
    unfolding e_def n_def v_def by (simp only: binary64_def Let_def False if_False)
  from assms have y: "y = of_int n * 2 powi e"
    and no: "\<not> 971 < e" "e = 971 \<longrightarrow> \<bar>n\<bar> < 2 ^ 53"
    unfolding b by (auto split: if_splits)
  have e_lo: "- 1074 \<le> e" by (simp add: e_def)
  from False have x0: "0 < \<bar>x\<bar>" by simp
  note fl = floor_log2_bounds [OF x0]
  have near: "\<bar>of_int n - v\<bar> \<le> 1 / 2"
    unfolding n_def by (rule round_half_even_error)
  have av: "\<bar>v\<bar> = \<bar>x\<bar> / 2 powi e"
    using p by (simp add: v_def abs_divide)
  have "(2::real) powi (floor_log2 \<bar>x\<bar> + 1) \<le> 2 powi (e + 53)"
    by (intro power_int_increasing) (simp_all add: e_def)
  also have "\<dots> = 2 powi e * 2 ^ 53"
    by (simp add: power_int_add)
  finally have "\<bar>x\<bar> < 2 powi e * 2 ^ 53"
    using fl(2) by linarith
  then have v_hi: "\<bar>v\<bar> < 2 ^ 53"
    using p by (simp add: av field_simps)
  from near v_hi have "\<bar>real_of_int n\<bar> < 2 ^ 53 + 1" by linarith
  then have "real_of_int \<bar>n\<bar> < real_of_int (2 ^ 53 + 1)" by simp
  then have "\<bar>n\<bar> < 2 ^ 53 + 1" by (simp only: of_int_less_iff)
  then have n_hi: "\<bar>n\<bar> \<le> 2 ^ 53" by simp
  show ?thesis
  proof (cases "n = 0")
    case True
    then have "y = 0" by (simp add: y)
    then show ?thesis by (rule that(1))
  next
    case n0: False
    show ?thesis
    proof (cases "\<bar>n\<bar> = 2 ^ 53")
      case True
      with no have e_hi: "e \<le> 970" by simp
      define m where "m = n div 2"
      from True have "n = 2 ^ 53 \<or> n = - (2 ^ 53)"
        by (simp only: abs_eq_iff')
      then have n2: "n = 2 * m" and am: "\<bar>m\<bar> = 2 ^ 52"
        unfolding m_def by auto
      have "y = of_int m * 2 powi (e + 1)"
        by (simp add: y n2 power_int_add)
      moreover have "m \<noteq> 0" "\<bar>m\<bar> < 2 ^ 53"
        using am by simp_all
      moreover have "- 1074 \<le> e + 1" "e + 1 \<le> 971"
        using e_lo e_hi by simp_all
      moreover have "2 ^ 52 \<le> \<bar>m\<bar> \<or> e + 1 = - 1074"
        using am by simp
      ultimately show ?thesis by (rule that(2))
    next
      case False
      with n_hi have n_lt: "\<bar>n\<bar> < 2 ^ 53" by simp
      have norm: "2 ^ 52 \<le> \<bar>n\<bar> \<or> e = - 1074"
      proof (cases "e = - 1074")
        case True
        then show ?thesis by simp
      next
        case False
        then have e_eq: "e = floor_log2 \<bar>x\<bar> - 52"
          by (simp add: e_def max_def split: if_splits)
        have "(2::real) powi (e + 52) = 2 powi e * 2 ^ 52"
          by (simp add: power_int_add)
        moreover have "2 powi (e + 52) \<le> \<bar>x\<bar>"
          using fl(1) by (simp add: e_eq)
        ultimately have "2 powi e * 2 ^ 52 \<le> \<bar>x\<bar>" by simp
        then have "2 ^ 52 \<le> \<bar>v\<bar>"
          using p by (simp add: av field_simps)
        with near have "2 ^ 52 - 1 < \<bar>real_of_int n\<bar>" by linarith
        then have "real_of_int (2 ^ 52 - 1) < real_of_int \<bar>n\<bar>" by simp
        then have "2 ^ 52 - 1 < \<bar>n\<bar>" by (simp only: of_int_less_iff)
        then show ?thesis by simp
      qed
      from no(1) have "e \<le> 971" by simp
      from that(2) [OF y n0 n_lt e_lo this norm] show ?thesis .
    qed
  qed
qed

lemma binary64_idem:
  assumes "binary64 x = Finite y"
  shows "binary64 y = Finite y"
  using assms
proof (cases rule: binary64_Finite_cases)
  case 1
  then show ?thesis by (simp add: binary64_def)
next
  case (2 m k)
  then show ?thesis by (rule binary64_grid)
qed

lemma binary64_large_integer:
  assumes "binary64 x = Finite y" and "10 ^ 21 \<le> \<bar>y\<bar>"
  shows "\<exists>j. y = of_int j"
  using assms(1)
proof (cases rule: binary64_Finite_cases)
  case 1
  with assms(2) show ?thesis by simp
next
  case (2 m k)
  have am: "real_of_int \<bar>m\<bar> < 2 ^ 53"
    using 2(3) by (metis of_int_less_iff of_int_numeral of_int_power)
  have "0 < k"
  proof (rule ccontr)
    assume "\<not> 0 < k"
    then have "(2::real) powi k \<le> 2 powi 0"
      by (intro power_int_increasing) simp_all
    then have "(2::real) powi k \<le> 1" by simp
    moreover have "0 < (2::real) powi k" by simp
    moreover have "\<bar>y\<bar> = real_of_int \<bar>m\<bar> * 2 powi k"
      by (simp add: 2(1) abs_mult)
    ultimately have "\<bar>y\<bar> \<le> real_of_int \<bar>m\<bar>"
      by (simp add: mult_left_le)
    with am assms(2) show False by simp
  qed
  then have "(2::real) powi k = 2 ^ nat k"
    by (simp add: power_int_def)
  then have "y = of_int (m * 2 ^ nat k)"
    by (simp add: 2(1))
  then show ?thesis ..
qed

text \<open>
  \<open>toFixed\<close> picks the nearest decimal with ties to the larger magnitude, which is
  round-half-up; from \<open>10^21\<close> on a binary64 number is an integer, which rounding to
  decimal places leaves as it is.
\<close>

lemma nearest_integer:
  fixes y :: real
  shows "(if y - of_int \<lfloor>y\<rfloor> < of_int (\<lfloor>y\<rfloor> + 1) - y then \<lfloor>y\<rfloor> else \<lfloor>y\<rfloor> + 1) = \<lfloor>y + 1 / 2\<rfloor>"
proof -
  have lo: "of_int \<lfloor>y\<rfloor> \<le> y" "y < of_int \<lfloor>y\<rfloor> + 1"
    by linarith+
  show ?thesis
  proof (cases "y - of_int \<lfloor>y\<rfloor> < of_int (\<lfloor>y\<rfloor> + 1) - y")
    case True
    then have "y + 1 / 2 < of_int \<lfloor>y\<rfloor> + 1" by simp
    moreover have "of_int \<lfloor>y\<rfloor> \<le> y + 1 / 2" using lo by linarith
    ultimately have "\<lfloor>y + 1 / 2\<rfloor> = \<lfloor>y\<rfloor>" by (intro floor_unique)
    with True show ?thesis by simp
  next
    case False
    then have "of_int (\<lfloor>y\<rfloor> + 1) \<le> y + 1 / 2" by simp
    moreover have "y + 1 / 2 < of_int (\<lfloor>y\<rfloor> + 1) + 1" using lo by simp linarith
    ultimately have "\<lfloor>y + 1 / 2\<rfloor> = \<lfloor>y\<rfloor> + 1" by (rule floor_unique)
    with False show ?thesis by simp
  qed
qed

lemma toFixed_round_half_up:
  assumes "\<bar>r\<bar> < 10 ^ 21"
  shows "toFixed (Finite r) f = Decimal (round_half_up r f)"
proof -
  from assms have "\<not> 10 ^ 21 \<le> \<bar>r\<bar>" by simp
  then show ?thesis
    by (simp only: toFixed_def number.case if_False Let_def nearest_integer round_half_up_def)
qed

lemma round_half_up_of_int: "round_half_up (of_int j) f = of_int j"
proof -
  have "\<bar>real_of_int j\<bar> * 10 ^ f + 1 / 2 = of_int (\<bar>j\<bar> * 10 ^ f) + 1 / 2"
    by simp
  moreover have "\<lfloor>real_of_int (\<bar>j\<bar> * 10 ^ f) + 1 / 2\<rfloor> = \<bar>j\<bar> * 10 ^ f"
    by (intro floor_unique) simp_all
  ultimately have "\<lfloor>\<bar>real_of_int j\<bar> * 10 ^ f + 1 / 2\<rfloor> = \<bar>j\<bar> * 10 ^ f"
    by (simp only:)
  then show ?thesis
    by (simp add: round_half_up_def)
qed

lemma parseFloat_toFixed_binary64:
  assumes "binary64 x = Finite y"
  shows "parseFloat (toFixed (Finite y) f) = binary64 (round_half_up y f)"
proof (cases "\<bar>y\<bar> < 10 ^ 21")
  case True
  then show ?thesis by (simp add: toFixed_round_half_up)
next
  case False
  then have big: "10 ^ 21 \<le> \<bar>y\<bar>" by simp
  from binary64_large_integer [OF assms big] obtain j where j: "y = of_int j" ..
  have "binary64 (round_half_up y f) = binary64 y"
    by (simp only: j round_half_up_of_int)
  also have "\<dots> = Finite y" using assms by (rule binary64_idem)
  finally show ?thesis using big by (simp add: toFixed_def)
qed













lemma binary64_0: "binary64 0 = Finite 0"
  by (simp add: binary64_def)



lemma at_most_refl: "a \<noteq> NaN \<Longrightarrow> at_most a a"
  by (cases a) simp_all





text \<open>
  A sum or a product that is finite has finite operands and is the binary64 number nearest
  to their exact sum or product; so every finite result of the arithmetic is a binary64
  number, and \<open>parseFloat\<close> of \<open>toFixed\<close> of it is round-half-up on its exact value.
\<close>

lemma js_plus_Finite:
  assumes "js_plus a b = Finite w"
  obtains u v where "a = Finite u" "b = Finite v" "binary64 (u + v) = Finite w"
  using assms by (cases a; cases b) simp_all

lemma js_times_Finite:
  assumes "js_times a b = Finite w"
  obtains u v where "a = Finite u" "b = Finite v" "binary64 (u * v) = Finite w"
  using assms by (cases a; cases b) (simp_all split: if_splits)

lemma foldl_js_plus_binary64:
  assumes "\<And>v. a = Finite v \<Longrightarrow> binary64 v = Finite v"
    and "foldl js_plus a xs = Finite y"
  shows "binary64 y = Finite y"
  using assms
proof (induction xs arbitrary: a)
  case Nil
  then show ?case by simp
next
  case (Cons x xs)
  have "binary64 v = Finite v" if "js_plus a x = Finite v" for v
    using that by (rule js_plus_Finite) (rule binary64_idem)
  from Cons.IH [OF this] Cons.prems(2) show ?case by simp
qed

lemma parseFloat_toFixed_rounded:
  assumes "\<And>v. a = Finite v \<Longrightarrow> binary64 v = Finite v"
  shows "parseFloat (toFixed a f) = rounded a f"
proof (cases a)
  case (Finite v)
  from assms [OF this] have "parseFloat (toFixed (Finite v) f) = binary64 (round_half_up v f)"
    by (rule parseFloat_toFixed_binary64)
  then show ?thesis by (simp add: Finite rounded_def)
qed (simp_all add: toFixed_def rounded_def)






section \<open>Properties of the shopping list\<close>

lemma findFirst_None_iff: "findFirst tbl pid c = None \<longleftrightarrow> \<not> (\<exists>e\<in>set tbl. offer pid c e)"
proof -
  have "sort_key price (filter (offer pid c) tbl) = [] \<longleftrightarrow> filter (offer pid c) tbl = []"
    by (metis set_sort set_empty)
  then show ?thesis
    by (auto simp: findFirst_def filter_empty_conv split: list.splits)
qed

lemma findFirst_Some:
  assumes "findFirst tbl pid c = Some e"
  shows "e \<in> set tbl" and "offer pid c e"
    and "\<And>e'. e' \<in> set tbl \<Longrightarrow> offer pid c e' \<Longrightarrow> price e \<le> price e'"
proof -
  from assms obtain es where s: "sort_key price (filter (offer pid c) tbl) = e # es"
    by (auto simp: findFirst_def split: list.splits)
  have "e \<in> set (sort_key price (filter (offer pid c) tbl))"
    by (simp only: s) simp
  then show "e \<in> set tbl" and "offer pid c e" by simp_all
  fix e' assume "e' \<in> set tbl" "offer pid c e'"
  then have "e' \<in> set (sort_key price (filter (offer pid c) tbl))" by simp
  then have m: "e' \<in> set (e # es)" by (simp only: s)
  have "sorted (map price (e # es))"
    using sorted_sort_key [of price "filter (offer pid c) tbl"] by (simp only: s)
  with m show "price e \<le> price e'" by auto
qed

text \<open>
  The query of a line whose product id and city are strings is the query of the cheapest
  listing.
\<close>

lemma findFirstWhere_Equals:
  "findFirstWhere tbl (lineOffer (Equals pid) (Equals c)) = findFirst tbl pid c"
proof -
  have "lineOffer (Equals pid) (Equals c) = offer pid c"
    by (rule ext) (simp add: lineOffer_def offer_def)
  then show ?thesis by (simp add: findFirst_def findFirstWhere_def)
qed

text \<open>The loop returns the priced lines in the order of the request, unless a line throws.\<close>

lemma those_eq_Some: "those xs = Some ys \<longleftrightarrow> xs = map Some ys"
  by (induction xs arbitrary: ys) (auto split: option.splits)

lemma priceItems_those:
  "priceItems stringFilter coerce tbl c items acc =
     map_option ((@) acc) (those (map (priceItem stringFilter coerce tbl c) items))"
proof (induction items arbitrary: acc)
  case Nil
  then show ?case by simp
next
  case (Cons item items)
  show ?case
    by (cases "priceItem stringFilter coerce tbl c item")
      (simp_all add: Cons.IH option.map_comp comp_def)
qed

lemma priceItems_eq_Some:
  "priceItems stringFilter coerce tbl c items [] = Some ls \<longleftrightarrow>
     map (priceItem stringFilter coerce tbl c) items = map Some ls"
  by (auto simp: priceItems_those those_eq_Some)

lemma shoppingList_post_201I:
  assumes "iterate (body_shoppingItems b) = Some items"
    and "map (priceItem stringFilter coerce (inventories s) (body_city b)) items = map Some ls"
  shows "shoppingList_post stringFilter coerce s u now b =
     Response 201 (Json \<lparr> userEmail = email u, currentDate = now, list_city = body_city b,
       shoppingItems = ls, list_total = parseFloat (toFixed (sumSubtotals ls) 2) \<rparr>)"
proof -
  from assms(2) have "priceItems stringFilter coerce (inventories s) (body_city b) items [] = Some ls"
    by (simp only: priceItems_eq_Some)
  with assms(1) show ?thesis
    by (simp add: shoppingList_post_def shoppingList_try_def)
qed

lemma shoppingList_post_201D:
  assumes "shoppingList_post stringFilter coerce s u now b = Response 201 (Json r)"
  obtains items where "iterate (body_shoppingItems b) = Some items"
    and "map (priceItem stringFilter coerce (inventories s) (body_city b)) items = map Some (shoppingItems r)"
    and "list_total r = parseFloat (toFixed (sumSubtotals (shoppingItems r)) 2)"
proof -
  from assms obtain items ls where i: "iterate (body_shoppingItems b) = Some items"
    and p: "priceItems stringFilter coerce (inventories s) (body_city b) items [] = Some ls"
    and r: "r = \<lparr> userEmail = email u, currentDate = now, list_city = body_city b,
       shoppingItems = ls, list_total = parseFloat (toFixed (sumSubtotals ls) 2) \<rparr>"
    by (auto simp: shoppingList_post_def shoppingList_try_def split: option.splits)
  from r have ls: "shoppingItems r = ls"
    and t: "list_total r = parseFloat (toFixed (sumSubtotals (shoppingItems r)) 2)"
    by simp_all
  from p have "map (priceItem stringFilter coerce (inventories s) (body_city b)) items = map Some (shoppingItems r)"
    by (simp only: priceItems_eq_Some ls)
  with i show ?thesis using t by (rule that)
qed

lemma shoppingList_post_500:
  "shoppingList_post stringFilter coerce s u now b \<noteq> Response 500 (Error ''An error occurred while creating the shopping list.'')
   \<longleftrightarrow> (\<exists>r. shoppingList_post stringFilter coerce s u now b = Response 201 (Json r))"
  by (simp add: shoppingList_post_def split: option.splits)

lemma sumSubtotals_map: "sumSubtotals ls = foldl js_plus (Finite 0) (map subtotal ls)"
  by (simp add: sumSubtotals_def foldl_map)

text \<open>The two roundings of the handler are round-half-up on the binary64 value.\<close>

lemma total_rounded:
  "parseFloat (toFixed (sumSubtotals ls) 2) = rounded (foldl js_plus (Finite 0) (map subtotal ls)) 2"
proof -
  have z: "binary64 v = Finite v" if "Finite 0 = Finite v" for v
    using that by (auto simp: binary64_0)
  have "binary64 v = Finite v" if "foldl js_plus (Finite 0) (map subtotal ls) = Finite v" for v
    using z that by (rule foldl_js_plus_binary64)
  then show ?thesis
    unfolding sumSubtotals_map by (rule parseFloat_toFixed_rounded)
qed

lemma subtotal_rounded:
  "parseFloat (toFixed (js_times (Finite p) n) 2) =
     (case n of Finite q \<Rightarrow> rounded (binary64 (p * q)) 2 | m \<Rightarrow> js_times (Finite p) m)"
proof -
  have "binary64 v = Finite v" if "js_times (Finite p) n = Finite v" for v
    using that by (rule js_times_Finite) (rule binary64_idem)
  then have "parseFloat (toFixed (js_times (Finite p) n) 2) = rounded (js_times (Finite p) n) 2"
    by (rule parseFloat_toFixed_rounded)
  then show ?thesis
    by (cases n) (simp_all add: rounded_def)
qed

lemma priceItem_found:
  assumes "lineQuery stringFilter c item = Some (pid, cw)"
    and "findFirstWhere tbl (lineOffer pid cw) = Some e"
  shows "priceItem stringFilter coerce tbl c item =
     Some \<lparr> line_productName = productName (product e),
       line_supermarketName = supermarketName (supermarket e),
       line_quantity = property item ''quantity'',
       lowestPrice = Finite (price e),
       subtotal = parseFloat (toFixed (js_times (Finite (price e))
                    (toNumber coerce (property item ''quantity''))) 2) \<rparr>"
  using assms by (simp add: priceItem_def)

lemma priceItem_not_found:
  assumes "lineQuery stringFilter c item = Some (pid, cw)"
    and "findFirstWhere tbl (lineOffer pid cw) = None"
  shows "priceItem stringFilter coerce tbl c item =
     Some \<lparr> line_productName = ''Product with ID '' @ interpolate pid @ '' not found in '' @ interpolate cw,
       line_supermarketName = ''N/A'',
       line_quantity = property item ''quantity'',
       lowestPrice = Finite 0,
       subtotal = Finite 0 \<rparr>"
  using assms by (simp add: priceItem_def)

lemma priceItem_Some:
  assumes "priceItem stringFilter coerce tbl c item = Some l"
  obtains pid cw where "lineQuery stringFilter c item = Some (pid, cw)"
  using assms by (auto simp: priceItem_def split: option.splits)


lemma priceItem_subtotal:
  assumes "priceItem stringFilter coerce tbl c item = Some l"
    and "lineQuery stringFilter c item = Some (pid, cw)"
  shows "subtotal l =
     (case findFirstWhere tbl (lineOffer pid cw) of
        None \<Rightarrow> Finite 0
      | Some e \<Rightarrow>
          (case toNumber coerce (property item ''quantity'') of
             Finite q \<Rightarrow> rounded (binary64 (price e * q)) 2
           | n \<Rightarrow> js_times (Finite (price e)) n))"
proof (cases "findFirstWhere tbl (lineOffer pid cw)")
  case None
  from priceItem_not_found [OF assms(2) None, of coerce] assms(1) show ?thesis
    by (auto simp: None)
next
  case (Some e)
  from priceItem_found [OF assms(2) Some, of coerce] assms(1)
  have "subtotal l = parseFloat (toFixed (js_times (Finite (price e))
                    (toNumber coerce (property item ''quantity''))) 2)"
    by auto
  then show ?thesis
    by (simp only: subtotal_rounded Some option.case)
qed

lemma map_eq_map_Some_nth:
  assumes "map f xs = map Some ys" and "i < length xs"
  shows "f (xs ! i) = Some (ys ! i)"
proof -
  from assms(1) have "length xs = length ys"
    by (metis length_map)
  with assms have "map f xs ! i = map Some ys ! i" "i < length ys" by simp_all
  with assms(2) show ?thesis by simp
qed

text \<open>
  C3, as amended: in every shopping list that the handler answers with 201, the subtotal
  of a line without an offer is 0, and the subtotal of a line with an offer and a finite
  quantity is the binary64 product of price and quantity, rounded half-up to two places
  on its binary64 value and taken to the nearest binary64 number. The total is the sum of
  these rounded subtotals, added from left to right from 0 in binary64 arithmetic, and
  rounded in the same way. A quantity that is not finite gives the product as the
  subtotal, and a sum that is not finite is the total.
\<close>

theorem shoppingList_post_total_rounding:
  assumes "shoppingList_post stringFilter coerce s u now b = Response 201 (Json r)"
  shows "\<exists>items. iterate (body_shoppingItems b) = Some items
       \<and> length (shoppingItems r) = length items
       \<and> (\<forall>i<length items. \<exists>pid cw.
            lineQuery stringFilter (body_city b) (items ! i) = Some (pid, cw)
            \<and> subtotal (shoppingItems r ! i) =
                (case findFirstWhere (inventories s) (lineOffer pid cw) of
                   None \<Rightarrow> Finite 0
                 | Some e \<Rightarrow>
                     (case toNumber coerce (property (items ! i) ''quantity'') of
                        Finite q \<Rightarrow> rounded (binary64 (price e * q)) 2
                      | n \<Rightarrow> js_times (Finite (price e)) n)))
       \<and> list_total r = rounded (foldl js_plus (Finite 0) (map subtotal (shoppingItems r))) 2"
  using assms
proof (rule shoppingList_post_201D)
  fix items
  assume i: "iterate (body_shoppingItems b) = Some items"
    and m: "map (priceItem stringFilter coerce (inventories s) (body_city b)) items = map Some (shoppingItems r)"
    and t: "list_total r = parseFloat (toFixed (sumSubtotals (shoppingItems r)) 2)"
  from m have l: "length (shoppingItems r) = length items"
    by (metis length_map)
  have "\<exists>pid cw.
            lineQuery stringFilter (body_city b) (items ! i) = Some (pid, cw)
            \<and> subtotal (shoppingItems r ! i) =
                (case findFirstWhere (inventories s) (lineOffer pid cw) of
                   None \<Rightarrow> Finite 0
                 | Some e \<Rightarrow>
                     (case toNumber coerce (property (items ! i) ''quantity'') of
                        Finite q \<Rightarrow> rounded (binary64 (price e * q)) 2
                      | n \<Rightarrow> js_times (Finite (price e)) n))" if "i < length items" for i
  proof -
    from m that have p: "priceItem stringFilter coerce (inventories s) (body_city b) (items ! i)
        = Some (shoppingItems r ! i)"
      by (rule map_eq_map_Some_nth)
    then obtain pid cw where q: "lineQuery stringFilter (body_city b) (items ! i) = Some (pid, cw)"
      by (rule priceItem_Some)
    from priceItem_subtotal [OF p q] q show ?thesis by blast
  qed
  with i l t show ?thesis
    by (auto simp only: total_rounded)
qed












text \<open>
  The handler answers 500 exactly when \<open>shoppingItems\<close> is not iterable or the query of
  some line throws; otherwise it answers 201 with one priced line for each line of the
  request, in the order of the request.
\<close>

lemma priceItem_None_iff:
  "priceItem stringFilter coerce tbl c item = None \<longleftrightarrow> lineQuery stringFilter c item = None"
  by (auto simp: priceItem_def split: option.splits)

lemma those_eq_None: "those xs = None \<longleftrightarrow> (\<exists>x\<in>set xs. x = None)"
  by (induction xs) (auto split: option.splits)

lemma shoppingList_post_500_iff:
  "shoppingList_post stringFilter coerce s u now b
     = Response 500 (Error ''An error occurred while creating the shopping list.'')
   \<longleftrightarrow> (case iterate (body_shoppingItems b) of
          None \<Rightarrow> True
        | Some items \<Rightarrow> \<exists>item\<in>set items. lineQuery stringFilter (body_city b) item = None)"
proof (cases "iterate (body_shoppingItems b)")
  case None
  then show ?thesis by (simp add: shoppingList_post_def shoppingList_try_def)
next
  case (Some items)
  have "priceItems stringFilter coerce (inventories s) (body_city b) items [] = None
      \<longleftrightarrow> (\<exists>item\<in>set items. lineQuery stringFilter (body_city b) item = None)"
  proof -
    have "None \<in> priceItem stringFilter coerce (inventories s) (body_city b) ` set items
        \<longleftrightarrow> (\<exists>item\<in>set items. priceItem stringFilter coerce (inventories s) (body_city b) item = None)"
      by force
    then show ?thesis
      by (simp add: priceItems_those those_eq_None priceItem_None_iff)
  qed
  then show ?thesis
    by (auto simp: shoppingList_post_def shoppingList_try_def Some split: option.splits)
qed

lemma shoppingList_post_lines:
  assumes "iterate (body_shoppingItems b) = Some items"
    and "\<forall>item\<in>set items. lineQuery stringFilter (body_city b) item \<noteq> None"
  shows "\<exists>r. shoppingList_post stringFilter coerce s u now b = Response 201 (Json r)
       \<and> length (shoppingItems r) = length items
       \<and> (\<forall>i<length items.
            priceItem stringFilter coerce (inventories s) (body_city b) (items ! i)
              = Some (shoppingItems r ! i))"
proof -
  from assms have "shoppingList_post stringFilter coerce s u now b
      \<noteq> Response 500 (Error ''An error occurred while creating the shopping list.'')"
    by (simp add: shoppingList_post_500_iff)
  then obtain r where r: "shoppingList_post stringFilter coerce s u now b = Response 201 (Json r)"
    by (auto simp: shoppingList_post_500)
  then obtain items0 where "iterate (body_shoppingItems b) = Some items0"
    and "map (priceItem stringFilter coerce (inventories s) (body_city b)) items0 = map Some (shoppingItems r)"
    by (rule shoppingList_post_201D)
  with assms(1) have m: "map (priceItem stringFilter coerce (inventories s) (body_city b)) items
      = map Some (shoppingItems r)"
    by simp
  then have "length (shoppingItems r) = length items"
    by (metis length_map)
  moreover have "\<forall>i<length items.
            priceItem stringFilter coerce (inventories s) (body_city b) (items ! i)
              = Some (shoppingItems r ! i)"
    using m by (auto intro: map_eq_map_Some_nth)
  ultimately show ?thesis using r by blast
qed

subsection \<open>The shopping list on the example store\<close>

lemma findFirst_milk: "findFirst exampleInventories ''P1'' ''New York'' = Some (exampleInventories ! 1)"
  by (simp add: findFirst_def offer_def example_defs)

lemma findFirst_bread: "findFirst exampleInventories ''P2'' ''New York'' = None"
  by (simp add: findFirst_def offer_def example_defs)

lemma findFirst_gum: "findFirst exampleInventories ''P3'' ''New York'' = Some (exampleInventories ! 5)"
  by (simp add: findFirst_def offer_def example_defs)

lemma no_bread_in_New_York:
  "\<not> (\<exists>e\<in>set (inventories exampleStore). offer ''P2'' ''New York'' e)"
  by (simp add: offer_def example_defs)

lemma findFirst_1: "findFirst exampleInventories ''1'' ''New York'' = None"
  by (simp add: findFirst_def offer_def example_defs)

lemma findFirstWhere_any_product:
  "findFirstWhere exampleInventories (lineOffer Unconstrained (Equals ''New York''))
     = Some (exampleInventories ! 5)"
  by (simp add: findFirstWhere_def lineOffer_def example_defs)


lemma gum_row:
  "productName (product (exampleInventories ! 5)) = ''Gum''"
  "supermarketName (supermarket (exampleInventories ! 5)) = ''Fresh Mart''"
  "price (exampleInventories ! 5) = 5764607523034235 / 1152921504606846976"
  by (simp_all add: example_defs)

lemma lineQuery_orderLine:
  "lineQuery stringFilter (Some (JString c)) (orderLine (JString pid) q) = Some (Equals pid, Equals c)"
  "lineQuery stringFilter (Some (JString c)) (orderLine (JNumber n) q) = None"
  "lineQuery stringFilter (Some (JString c)) (JObject [(''quantity'', v)]) = Some (Unconstrained, Equals c)"
  by (simp_all add: lineQuery_def orderLine_def property_def stringArgument_def)

lemma quantity_orderLine:
  "property (orderLine pid q) ''quantity'' = Some (JNumber (Finite q))"
  "toNumber coerce (Some (JNumber n)) = n"
  "property (JObject [(''quantity'', v)]) ''quantity'' = Some v"
  by (simp_all add: orderLine_def property_def toNumber_def)

lemma request_simps:
  "body_city (request items) = Some (JString ''New York'')"
  "iterate (body_shoppingItems (request items)) = Some items"
  by (simp_all add: request_def iterate_def)

lemma priceItem_milk:
  "priceItem stringFilter coerce exampleInventories (Some (JString ''New York'')) (orderLine (JString ''P1'') q)
   = Some \<lparr> line_productName = ''Milk'', line_supermarketName = ''Fresh Mart'',
       line_quantity = Some (JNumber (Finite q)), lowestPrice = Finite (7 / 2),
       subtotal = parseFloat (toFixed (binary64 (7 / 2 * q)) 2) \<rparr>"
  by (simp add: priceItem_def lineQuery_orderLine quantity_orderLine toNumber_def)
    (simp add: findFirstWhere_def lineOffer_def example_defs quantity_orderLine toNumber_def)

lemma priceItem_gum:
  "priceItem stringFilter coerce exampleInventories (Some (JString ''New York'')) (orderLine (JString ''P3'') q)
   = Some \<lparr> line_productName = ''Gum'', line_supermarketName = ''Fresh Mart'',
       line_quantity = Some (JNumber (Finite q)),
       lowestPrice = Finite (5764607523034235 / 1152921504606846976),
       subtotal = parseFloat (toFixed (binary64 (5764607523034235 / 1152921504606846976 * q)) 2) \<rparr>"
  by (simp add: priceItem_def lineQuery_orderLine quantity_orderLine toNumber_def)
    (simp add: findFirstWhere_def lineOffer_def example_defs quantity_orderLine toNumber_def)

lemma priceItem_bread:
  "priceItem stringFilter coerce exampleInventories (Some (JString ''New York'')) (orderLine (JString ''P2'') q)
   = Some \<lparr> line_productName = ''Product with ID P2 not found in New York'',
       line_supermarketName = ''N/A'', line_quantity = Some (JNumber (Finite q)),
       lowestPrice = Finite 0, subtotal = Finite 0 \<rparr>"
  by (simp add: priceItem_def lineQuery_orderLine quantity_orderLine toNumber_def)
    (simp add: findFirstWhere_def lineOffer_def example_defs quantity_orderLine toNumber_def)

lemma priceItem_1:
  "priceItem stringFilter coerce exampleInventories (Some (JString ''New York'')) (orderLine (JString ''1'') q)
   = Some \<lparr> line_productName = ''Product with ID 1 not found in New York'',
       line_supermarketName = ''N/A'', line_quantity = Some (JNumber (Finite q)),
       lowestPrice = Finite 0, subtotal = Finite 0 \<rparr>"
  by (simp add: priceItem_def lineQuery_orderLine quantity_orderLine toNumber_def)
    (simp add: findFirstWhere_def lineOffer_def example_defs quantity_orderLine toNumber_def)

lemma priceItem_number:
  "priceItem stringFilter coerce tbl (Some (JString c)) (orderLine (JNumber n) q) = None"
  by (simp add: priceItem_def lineQuery_orderLine)

lemma priceItem_no_productId:
  "priceItem stringFilter coerce exampleInventories (Some (JString ''New York''))
     (JObject [(''quantity'', JNumber (Finite q))])
   = Some \<lparr> line_productName = ''Gum'', line_supermarketName = ''Fresh Mart'',
       line_quantity = Some (JNumber (Finite q)),
       lowestPrice = Finite (5764607523034235 / 1152921504606846976),
       subtotal = parseFloat (toFixed (binary64 (5764607523034235 / 1152921504606846976 * q)) 2) \<rparr>"
  by (simp add: priceItem_def lineQuery_orderLine quantity_orderLine toNumber_def)
    (simp add: findFirstWhere_def lineOffer_def example_defs quantity_orderLine toNumber_def)

lemma shoppingList_post_request:
  assumes "map (priceItem stringFilter coerce (inventories s) (Some (JString ''New York''))) items = map Some ls"
  shows "shoppingList_post stringFilter coerce s u now (request items) =
     Response 201 (Json \<lparr> userEmail = email u, currentDate = now, list_city = Some (JString ''New York''),
       shoppingItems = ls, list_total = parseFloat (toFixed (sumSubtotals ls) 2) \<rparr>)"
proof -
  have "map (priceItem stringFilter coerce (inventories s) (body_city (request items))) items = map Some ls"
    using assms by (simp add: request_simps)
  from shoppingList_post_201I [OF request_simps(2) this] show ?thesis
    by (simp add: request_simps)
qed

lemma inventories_exampleStore: "inventories exampleStore = exampleInventories"
  by (simp add: exampleStore_def)

lemma shoppingList_post_example:
  assumes "map (priceItem stringFilter coerce exampleInventories (Some (JString ''New York''))) items = map Some ls"
  shows "shoppingList_post stringFilter coerce exampleStore u now (request items) =
     Response 201 (Json \<lparr> userEmail = email u, currentDate = now, list_city = Some (JString ''New York''),
       shoppingItems = ls, list_total = parseFloat (toFixed (sumSubtotals ls) 2) \<rparr>)"
  using assms by (intro shoppingList_post_request) (simp only: inventories_exampleStore)

text \<open>
  C1 on the documented request. The documentation of the route gives \<open>productId\<close> the type
  integer and the example \<open>1\<close>. A request for two litres of milk, by its id \<open>P1\<close>, is
  answered 201 with the priced line. The same request with a second line whose
  \<open>productId\<close> is the number 1 is answered 500: the store refuses the query of the second
  line, and the line priced before it is lost with it.
\<close>

theorem shoppingList_post_number_productId:
  "shoppingList_post noFilters noCoercion exampleStore carol 1000
      (request [orderLine (JString ''P1'') 2])
     = Response 201 (Json \<lparr> userEmail = ''carol@example.com'', currentDate = 1000,
         list_city = Some (JString ''New York''),
         shoppingItems =
           [\<lparr> line_productName = ''Milk'', line_supermarketName = ''Fresh Mart'',
              line_quantity = Some (JNumber (Finite 2)), lowestPrice = Finite (7 / 2),
              subtotal = Finite 7 \<rparr>],
         list_total = Finite 7 \<rparr>)
   \<and> shoppingList_post noFilters noCoercion exampleStore carol 1000
      (request [orderLine (JString ''P1'') 2, orderLine (JNumber (Finite 1)) 1])
     = Response 500 (Error ''An error occurred while creating the shopping list.'')"
proof -
  have "map (priceItem noFilters noCoercion exampleInventories (Some (JString ''New York'')))
      [orderLine (JString ''P1'') 2]
    = map Some [\<lparr> line_productName = ''Milk'', line_supermarketName = ''Fresh Mart'',
              line_quantity = Some (JNumber (Finite 2)), lowestPrice = Finite (7 / 2),
              subtotal = Finite 7 \<rparr>]"
    by (simp add: priceItem_milk) (simp add: toFixed_def binary64_eval)
  from shoppingList_post_example [OF this, of carol 1000]
  have a: "shoppingList_post noFilters noCoercion exampleStore carol 1000
      (request [orderLine (JString ''P1'') 2])
     = Response 201 (Json \<lparr> userEmail = ''carol@example.com'', currentDate = 1000,
         list_city = Some (JString ''New York''),
         shoppingItems =
           [\<lparr> line_productName = ''Milk'', line_supermarketName = ''Fresh Mart'',
              line_quantity = Some (JNumber (Finite 2)), lowestPrice = Finite (7 / 2),
              subtotal = Finite 7 \<rparr>],
         list_total = Finite 7 \<rparr>)"
    by (simp add: sumSubtotals_def carol_def) (simp add: toFixed_def binary64_eval)
  have b: "shoppingList_post noFilters noCoercion exampleStore carol 1000
      (request [orderLine (JString ''P1'') 2, orderLine (JNumber (Finite 1)) 1])
     = Response 500 (Error ''An error occurred while creating the shopping list.'')"
    by (simp add: shoppingList_post_def shoppingList_try_def request_simps exampleStore_def
        priceItem_milk priceItem_number)
  from a b show ?thesis ..
qed

text \<open>
  C5 on the documented request. No product has the id 1. A line that asks for it with the
  string \<open>"1"\<close> is answered by the placeholder line. A line that asks for it with the
  number \<open>1\<close>, as the documentation of the route has it, is answered 500. A line without
  a \<open>productId\<close> is priced as the cheapest product in stock in the city.
\<close>

theorem shoppingList_post_unknown_productId:
  "shoppingList_post noFilters noCoercion exampleStore carol 1000
      (request [orderLine (JString ''1'') 4])
     = Response 201 (Json \<lparr> userEmail = ''carol@example.com'', currentDate = 1000,
         list_city = Some (JString ''New York''),
         shoppingItems =
           [\<lparr> line_productName = ''Product with ID 1 not found in New York'',
              line_supermarketName = ''N/A'', line_quantity = Some (JNumber (Finite 4)),
              lowestPrice = Finite 0, subtotal = Finite 0 \<rparr>],
         list_total = Finite 0 \<rparr>)
   \<and> shoppingList_post noFilters noCoercion exampleStore carol 1000
      (request [orderLine (JNumber (Finite 1)) 4])
     = Response 500 (Error ''An error occurred while creating the shopping list.'')
   \<and> shoppingList_post noFilters noCoercion exampleStore carol 1000
      (request [JObject [(''quantity'', JNumber (Finite 4))]])
     = Response 201 (Json \<lparr> userEmail = ''carol@example.com'', currentDate = 1000,
         list_city = Some (JString ''New York''),
         shoppingItems =
           [\<lparr> line_productName = ''Gum'', line_supermarketName = ''Fresh Mart'',
              line_quantity = Some (JNumber (Finite 4)),
              lowestPrice = Finite (5764607523034235 / 1152921504606846976),
              subtotal = Finite (5764607523034235 / 288230376151711744) \<rparr>],
         list_total = Finite (5764607523034235 / 288230376151711744) \<rparr>)"
proof -
  have "map (priceItem noFilters noCoercion exampleInventories (Some (JString ''New York'')))
      [orderLine (JString ''1'') 4]
    = map Some [\<lparr> line_productName = ''Product with ID 1 not found in New York'',
              line_supermarketName = ''N/A'', line_quantity = Some (JNumber (Finite 4)),
              lowestPrice = Finite 0, subtotal = Finite 0 \<rparr>]"
    by (simp add: priceItem_1)
  from shoppingList_post_example [OF this, of carol 1000]
  have a: "shoppingList_post noFilters noCoercion exampleStore carol 1000
      (request [orderLine (JString ''1'') 4])
     = Response 201 (Json \<lparr> userEmail = ''carol@example.com'', currentDate = 1000,
         list_city = Some (JString ''New York''),
         shoppingItems =
           [\<lparr> line_productName = ''Product with ID 1 not found in New York'',
              line_supermarketName = ''N/A'', line_quantity = Some (JNumber (Finite 4)),
              lowestPrice = Finite 0, subtotal = Finite 0 \<rparr>],
         list_total = Finite 0 \<rparr>)"
    by (simp add: sumSubtotals_def carol_def) (simp add: toFixed_def binary64_eval)
  have b: "shoppingList_post noFilters noCoercion exampleStore carol 1000
      (request [orderLine (JNumber (Finite 1)) 4])
     = Response 500 (Error ''An error occurred while creating the shopping list.'')"
    by (simp add: shoppingList_post_def shoppingList_try_def request_simps exampleStore_def
        priceItem_number)
  have "map (priceItem noFilters noCoercion exampleInventories (Some (JString ''New York'')))
      [JObject [(''quantity'', JNumber (Finite 4))]]
    = map Some [\<lparr> line_productName = ''Gum'', line_supermarketName = ''Fresh Mart'',
              line_quantity = Some (JNumber (Finite 4)),
              lowestPrice = Finite (5764607523034235 / 1152921504606846976),
              subtotal = Finite (5764607523034235 / 288230376151711744) \<rparr>]"
    by (simp add: priceItem_no_productId) (simp add: toFixed_def binary64_eval)
  from shoppingList_post_example [OF this, of carol 1000]
  have c: "shoppingList_post noFilters noCoercion exampleStore carol 1000
      (request [JObject [(''quantity'', JNumber (Finite 4))]])
     = Response 201 (Json \<lparr> userEmail = ''carol@example.com'', currentDate = 1000,
         list_city = Some (JString ''New York''),
         shoppingItems =
           [\<lparr> line_productName = ''Gum'', line_supermarketName = ''Fresh Mart'',
              line_quantity = Some (JNumber (Finite 4)),
              lowestPrice = Finite (5764607523034235 / 1152921504606846976),
              subtotal = Finite (5764607523034235 / 288230376151711744) \<rparr>],
         list_total = Finite (5764607523034235 / 288230376151711744) \<rparr>)"
    by (simp add: sumSubtotals_def carol_def) (simp add: toFixed_def binary64_eval)
  from a b c show ?thesis by (simp only: simp_thms)
qed

text \<open>
  C3, as stated, fails. The gum costs the number \<open>0.005\<close>. A list of three of them has the
  subtotal \<open>0.01\<close> and the total \<open>0.01\<close>. The product of price and quantity, rounded half-up
  to two places, is \<open>0.02\<close>, and so is the rounded sum of it.
\<close>

theorem total_of_rounded_products_counterexample:
  "shoppingList_post noFilters noCoercion exampleStore carol 1000
      (request [orderLine (JString ''P3'') 3])
     = Response 201 (Json \<lparr> userEmail = ''carol@example.com'', currentDate = 1000,
         list_city = Some (JString ''New York''),
         shoppingItems =
           [\<lparr> line_productName = ''Gum'', line_supermarketName = ''Fresh Mart'',
              line_quantity = Some (JNumber (Finite 3)),
              lowestPrice = Finite (5764607523034235 / 1152921504606846976),
              subtotal = Finite (5764607523034235 / 576460752303423488) \<rparr>],
         list_total = Finite (5764607523034235 / 576460752303423488) \<rparr>)
   \<and> binary64 (1 / 100) = Finite (5764607523034235 / 576460752303423488)
   \<and> round_half_up (5764607523034235 / 1152921504606846976 * 3) 2 = 2 / 100
   \<and> round_half_up (0 + round_half_up (5764607523034235 / 1152921504606846976 * 3) 2) 2 = 2 / 100
   \<and> binary64 (2 / 100) = Finite (5764607523034235 / 288230376151711744)
   \<and> Finite (5764607523034235 / 576460752303423488) \<noteq> Finite (2 / 100)
   \<and> Finite (5764607523034235 / 576460752303423488)
       \<noteq> binary64 (round_half_up (0 + round_half_up (5764607523034235 / 1152921504606846976 * 3) 2) 2)"
proof -
  have "map (priceItem noFilters noCoercion exampleInventories (Some (JString ''New York'')))
      [orderLine (JString ''P3'') 3]
    = map Some [\<lparr> line_productName = ''Gum'', line_supermarketName = ''Fresh Mart'',
              line_quantity = Some (JNumber (Finite 3)),
              lowestPrice = Finite (5764607523034235 / 1152921504606846976),
              subtotal = Finite (5764607523034235 / 576460752303423488) \<rparr>]"
    by (simp add: priceItem_gum) (simp add: toFixed_def binary64_eval)
  from shoppingList_post_example [OF this, of carol 1000]
  have a: "shoppingList_post noFilters noCoercion exampleStore carol 1000
      (request [orderLine (JString ''P3'') 3])
     = Response 201 (Json \<lparr> userEmail = ''carol@example.com'', currentDate = 1000,
         list_city = Some (JString ''New York''),
         shoppingItems =
           [\<lparr> line_productName = ''Gum'', line_supermarketName = ''Fresh Mart'',
              line_quantity = Some (JNumber (Finite 3)),
              lowestPrice = Finite (5764607523034235 / 1152921504606846976),
              subtotal = Finite (5764607523034235 / 576460752303423488) \<rparr>],
         list_total = Finite (5764607523034235 / 576460752303423488) \<rparr>)"
    by (simp add: sumSubtotals_def carol_def) (simp add: toFixed_def binary64_eval)
  have b: "binary64 (1 / 100) = Finite (5764607523034235 / 576460752303423488)"
    by (simp add: binary64_eval)
  have c: "round_half_up (5764607523034235 / 1152921504606846976 * 3) 2 = 2 / 100"
    by (simp add: round_half_up_def)
  have d: "round_half_up (0 + 2 / 100) 2 = 2 / 100"
    by (simp add: round_half_up_def)
  have e: "binary64 (2 / 100) = Finite (5764607523034235 / 288230376151711744)"
    by (simp add: binary64_eval)
  have f: "Finite (5764607523034235 / 576460752303423488) \<noteq> Finite (2 / 100)"
    "Finite (5764607523034235 / 576460752303423488) \<noteq> Finite (5764607523034235 / 288230376151711744)"
    by simp_all
  show ?thesis
    unfolding c d e b using a f by (simp only: simp_thms)
qed


theorem shoppingList_post_total_rounding_witness:
  "\<exists>r. shoppingList_post noFilters noCoercion exampleStore bob 1000
          (request [orderLine (JString ''P3'') 1, orderLine (JString ''P3'') 1,
                    orderLine (JString ''P2'') 5]) = Response 201 (Json r)
     \<and> subtotal (shoppingItems r ! 0) = rounded (binary64 (5764607523034235 / 1152921504606846976 * 1)) 2
     \<and> rounded (binary64 (5764607523034235 / 1152921504606846976 * 1)) 2
         = Finite (5764607523034235 / 576460752303423488)
     \<and> subtotal (shoppingItems r ! 2) = Finite 0
     \<and> list_total r =
         rounded (foldl js_plus (Finite 0)
           [Finite (5764607523034235 / 576460752303423488),
            Finite (5764607523034235 / 576460752303423488), Finite 0]) 2
     \<and> list_total r = Finite (5764607523034235 / 288230376151711744)
     \<and> rounded (foldl js_plus (Finite 0)
           [binary64 (5764607523034235 / 1152921504606846976 * 1),
            binary64 (5764607523034235 / 1152921504606846976 * 1), Finite 0]) 2
         = Finite (5764607523034235 / 576460752303423488)"
proof -
  let ?items = "[orderLine (JString ''P3'') 1, orderLine (JString ''P3'') 1, orderLine (JString ''P2'') 5]"
  define r where "r = \<lparr> userEmail = ''bob@example.com'', currentDate = 1000,
         list_city = Some (JString ''New York''),
         shoppingItems =
           [\<lparr> line_productName = ''Gum'', line_supermarketName = ''Fresh Mart'',
              line_quantity = Some (JNumber (Finite 1)),
              lowestPrice = Finite (5764607523034235 / 1152921504606846976),
              subtotal = Finite (5764607523034235 / 576460752303423488) \<rparr>,
            \<lparr> line_productName = ''Gum'', line_supermarketName = ''Fresh Mart'',
              line_quantity = Some (JNumber (Finite 1)),
              lowestPrice = Finite (5764607523034235 / 1152921504606846976),
              subtotal = Finite (5764607523034235 / 576460752303423488) \<rparr>,
            \<lparr> line_productName = ''Product with ID P2 not found in New York'',
              line_supermarketName = ''N/A'', line_quantity = Some (JNumber (Finite 5)),
              lowestPrice = Finite 0, subtotal = Finite 0 \<rparr>],
         list_total = Finite (5764607523034235 / 288230376151711744) \<rparr>"
  have "map (priceItem noFilters noCoercion exampleInventories (Some (JString ''New York''))) ?items
    = map Some (shoppingItems r)"
    by (simp add: priceItem_gum priceItem_bread r_def) (simp add: toFixed_def binary64_eval)
  from shoppingList_post_example [OF this, of bob 1000]
  have post: "shoppingList_post noFilters noCoercion exampleStore bob 1000 (request ?items)
      = Response 201 (Json r)"
    by (simp add: sumSubtotals_def bob_def r_def) (simp add: toFixed_def binary64_eval)
  from shoppingList_post_total_rounding [OF post]
  obtain items where it: "iterate (body_shoppingItems (request ?items)) = Some items"
    and sub: "\<forall>i<length items. \<exists>pid cw.
            lineQuery noFilters (body_city (request ?items)) (items ! i) = Some (pid, cw)
            \<and> subtotal (shoppingItems r ! i) =
                (case findFirstWhere (inventories exampleStore) (lineOffer pid cw) of
                   None \<Rightarrow> Finite 0
                 | Some e \<Rightarrow>
                     (case toNumber noCoercion (property (items ! i) ''quantity'') of
                        Finite q \<Rightarrow> rounded (binary64 (price e * q)) 2
                      | n \<Rightarrow> js_times (Finite (price e)) n))"
    and tot: "list_total r = rounded (foldl js_plus (Finite 0) (map subtotal (shoppingItems r))) 2"
    by (elim exE conjE)
  from it have items: "items = ?items"
    by (simp add: request_simps)
  have s0: "subtotal (shoppingItems r ! 0) = rounded (binary64 (5764607523034235 / 1152921504606846976 * 1)) 2"
    using sub [rule_format, of 0]
    by (simp add: items request_simps lineQuery_orderLine inventories_exampleStore
        findFirstWhere_Equals findFirst_gum quantity_orderLine gum_row)
  have s2: "subtotal (shoppingItems r ! 2) = Finite 0"
    using sub [rule_format, of 2]
    by (simp add: items request_simps lineQuery_orderLine inventories_exampleStore
        findFirstWhere_Equals findFirst_bread)
  have m: "map subtotal (shoppingItems r) =
          [Finite (5764607523034235 / 576460752303423488),
           Finite (5764607523034235 / 576460752303423488), Finite 0]"
    by (simp add: r_def)
  have v0: "rounded (binary64 (5764607523034235 / 1152921504606846976 * 1)) 2
         = Finite (5764607523034235 / 576460752303423488)"
    by (simp add: binary64_eval) (simp add: rounded_def round_half_up_def binary64_eval)
  have t1: "list_total r =
         rounded (foldl js_plus (Finite 0)
           [Finite (5764607523034235 / 576460752303423488),
            Finite (5764607523034235 / 576460752303423488), Finite 0]) 2"
    using tot by (simp only: m)
  have t2: "list_total r = Finite (5764607523034235 / 288230376151711744)"
    by (simp add: r_def)
  have ros: "rounded (foldl js_plus (Finite 0)
           [binary64 (5764607523034235 / 1152921504606846976 * 1),
            binary64 (5764607523034235 / 1152921504606846976 * 1), Finite 0]) 2
         = Finite (5764607523034235 / 576460752303423488)"
    by (simp add: binary64_eval) (simp add: rounded_def round_half_up_def binary64_eval)
  from post s0 v0 s2 t1 t2 ros show ?thesis
    by (intro exI [of _ r] conjI)
qed







section \<open>Properties of the cheapest listing\<close>

text \<open>
  C2: for a caller with one of the three roles, if the product has an in-stock entry in a
  supermarket of the city, the handler answers 200 with the listing of such an entry
  whose price is the least among all of them; if there is none, it answers 404.
\<close>

theorem inventory_cheapest_minimum:
  assumes "role u \<in> set allowedRoles"
  shows "if \<exists>e\<in>set (inventories s). offer pid c e
         then \<exists>e\<in>set (inventories s).
                productId (product e) = pid \<and> inStock e \<and> city (supermarket e) = c
                \<and> (\<forall>e'\<in>set (inventories s). offer pid c e' \<longrightarrow> price e \<le> price e')
                \<and> inventory_cheapest s u pid c = Response 200 (Json (select_listing u e))
                \<and> listing_price (select_listing u e) = price e
                \<and> listing_inStock (select_listing u e)
         else inventory_cheapest s u pid c =
                Response 404 (Message ''No listing found for the given product and city.'')"
proof (cases "\<exists>e\<in>set (inventories s). offer pid c e")
  case True
  then obtain e where e: "findFirst (inventories s) pid c = Some e"
    using findFirst_None_iff [of "inventories s" pid c] by (cases "findFirst (inventories s) pid c") auto
  note f = findFirst_Some [OF e]
  from f(2) have "productId (product e) = pid" "inStock e" "city (supermarket e) = c"
    by (simp_all add: offer_def)
  moreover have "\<forall>e'\<in>set (inventories s). offer pid c e' \<longrightarrow> price e \<le> price e'"
    using f(3) by blast
  moreover have "inventory_cheapest s u pid c = Response 200 (Json (select_listing u e))"
    using assms e by (simp add: inventory_cheapest_def)
  moreover have "listing_price (select_listing u e) = price e"
    and "listing_inStock (select_listing u e) = inStock e"
    by (simp_all add: select_listing_def)
  ultimately show ?thesis using True f(1) by auto
next
  case False
  then have "findFirst (inventories s) pid c = None"
    by (simp add: findFirst_None_iff)
  with False assms show ?thesis by (simp add: inventory_cheapest_def)
qed

lemma audit_variant_offer: "audit_variant e e' \<Longrightarrow> offer pid c e' = offer pid c e"
  by (simp add: audit_variant_def offer_def)

lemma audit_variant_filter:
  "list_all2 audit_variant xs ys \<Longrightarrow>
   list_all2 audit_variant (filter (offer pid c) xs) (filter (offer pid c) ys)"
  by (induction rule: list_all2_induct) (simp_all add: audit_variant_offer)

lemma audit_variant_insort:
  "audit_variant x y \<Longrightarrow> list_all2 audit_variant xs ys \<Longrightarrow>
   list_all2 audit_variant (insort_key price x xs) (insort_key price y ys)"
proof (induction xs arbitrary: ys)
  case Nil
  then show ?case by simp
next
  case (Cons a xs)
  then obtain b ys' where ys: "ys = b # ys'" and ab: "audit_variant a b"
    and r: "list_all2 audit_variant xs ys'"
    by (auto simp: list_all2_Cons1)
  from Cons.prems(1) ab have "price y = price x" "price b = price a"
    by (simp_all add: audit_variant_def)
  with Cons.IH [OF Cons.prems(1) r] Cons.prems(1) ab r show ?case
    by (simp add: ys)
qed

lemma audit_variant_sort:
  "list_all2 audit_variant xs ys \<Longrightarrow>
   list_all2 audit_variant (sort_key price xs) (sort_key price ys)"
  by (induction rule: list_all2_induct) (simp_all add: audit_variant_insort)

lemma audit_variant_findFirst:
  assumes "list_all2 audit_variant xs ys"
  shows "rel_option audit_variant (findFirst xs pid c) (findFirst ys pid c)"
proof -
  have "list_all2 audit_variant (sort_key price (filter (offer pid c) xs))
          (sort_key price (filter (offer pid c) ys))"
    using assms by (intro audit_variant_sort audit_variant_filter)
  then show ?thesis
    by (cases "sort_key price (filter (offer pid c) xs)";
        cases "sort_key price (filter (offer pid c) ys)") (simp_all add: findFirst_def)
qed

lemma select_listing_audit_variant:
  "role u \<noteq> ''ADMIN'' \<Longrightarrow> audit_variant e e' \<Longrightarrow> select_listing u e' = select_listing u e"
  by (simp add: select_listing_def audit_variant_def)

lemma inventory_cheapest_independent:
  assumes "role u \<noteq> ''ADMIN''" and "list_all2 audit_variant (inventories s) (inventories s')"
  shows "inventory_cheapest s' u pid c = inventory_cheapest s u pid c"
proof -
  from audit_variant_findFirst [OF assms(2), of pid c] show ?thesis
    by (cases "findFirst (inventories s) pid c"; cases "findFirst (inventories s') pid c")
       (simp_all add: inventory_cheapest_def select_listing_audit_variant [OF assms(1)])
qed

text \<open>
  C9: a 200 response carries \<open>updatedAt\<close> and \<open>updatedBy\<close> exactly when the caller is an
  ADMIN, and then they are those of the listed entry (the email and the id of its last
  modifier). For any other caller two stores whose inventory rows differ only in
  \<open>updatedAt\<close> and \<open>updatedBy\<close> give the same response.
\<close>

theorem inventory_cheapest_audit_fields:
  "(\<forall>r. inventory_cheapest s u pid c = Response 200 (Json r) \<longrightarrow>
      (listing_updatedAt r \<noteq> None \<longleftrightarrow> role u = ''ADMIN'')
      \<and> (listing_updatedBy r \<noteq> None \<longleftrightarrow> role u = ''ADMIN'')
      \<and> (role u = ''ADMIN'' \<longrightarrow>
           (\<exists>e\<in>set (inventories s). offer pid c e
              \<and> listing_updatedAt r = Some (updatedAt e)
              \<and> listing_updatedBy r =
                  Some \<lparr> modifier_email = email (updatedBy e), modifier_userId = userId (updatedBy e) \<rparr>)))
   \<and> (role u \<noteq> ''ADMIN'' \<and> list_all2 audit_variant (inventories s) (inventories s') \<longrightarrow>
        inventory_cheapest s' u pid c = inventory_cheapest s u pid c)"
proof (intro conjI allI impI)
  fix r assume r: "inventory_cheapest s u pid c = Response 200 (Json r)"
  then obtain e where e: "findFirst (inventories s) pid c = Some e" and s: "r = select_listing u e"
    by (auto simp: inventory_cheapest_def split: if_splits option.splits)
  show "listing_updatedAt r \<noteq> None \<longleftrightarrow> role u = ''ADMIN''"
    and "listing_updatedBy r \<noteq> None \<longleftrightarrow> role u = ''ADMIN''"
    by (simp_all add: s select_listing_def)
  assume "role u = ''ADMIN''"
  with findFirst_Some(1,2) [OF e]
  show "\<exists>e\<in>set (inventories s). offer pid c e
              \<and> listing_updatedAt r = Some (updatedAt e)
              \<and> listing_updatedBy r =
                  Some \<lparr> modifier_email = email (updatedBy e), modifier_userId = userId (updatedBy e) \<rparr>"
    by (intro bexI [of _ e]) (simp_all add: s select_listing_def)
next
  assume "role u \<noteq> ''ADMIN'' \<and> list_all2 audit_variant (inventories s) (inventories s')"
  then show "inventory_cheapest s' u pid c = inventory_cheapest s u pid c"
    by (simp add: inventory_cheapest_independent)
qed

subsection \<open>The cheapest listing on the example store\<close>

lemma cheapest_milk_carol:
  "inventory_cheapest exampleStore carol ''P1'' ''New York'' =
     Response 200 (Json \<lparr> listing_price = 7 / 2, listing_inStock = True, listing_updatedAt = None,
       listing_updatedBy = None, listing_supermarketName = ''Fresh Mart'',
       listing_productName = ''Milk'' \<rparr>)"
  by (simp add: inventory_cheapest_def allowedRoles_def exampleStore_def findFirst_milk)
     (simp add: select_listing_def example_defs)

lemma cheapest_milk_alice:
  "inventory_cheapest exampleStore alice ''P1'' ''New York'' =
     Response 200 (Json \<lparr> listing_price = 7 / 2, listing_inStock = True, listing_updatedAt = Some 31,
       listing_updatedBy = Some \<lparr> modifier_email = ''alice@example.com'', modifier_userId = ''u1'' \<rparr>,
       listing_supermarketName = ''Fresh Mart'', listing_productName = ''Milk'' \<rparr>)"
  by (simp add: inventory_cheapest_def allowedRoles_def exampleStore_def findFirst_milk)
     (simp add: select_listing_def example_defs)

lemma carol_allowed: "role carol \<in> set allowedRoles"
  by (simp add: carol_def allowedRoles_def)

lemma milk_in_New_York: "\<exists>e\<in>set (inventories exampleStore). offer ''P1'' ''New York'' e"
  by (simp add: offer_def example_defs)

theorem inventory_cheapest_minimum_witness:
  "role carol \<in> set allowedRoles
   \<and> (\<exists>e\<in>set (inventories exampleStore). offer ''P1'' ''New York'' e)
   \<and> (\<exists>e\<in>set (inventories exampleStore).
         productId (product e) = ''P1'' \<and> inStock e \<and> city (supermarket e) = ''New York''
         \<and> (\<forall>e'\<in>set (inventories exampleStore). offer ''P1'' ''New York'' e' \<longrightarrow> price e \<le> price e')
         \<and> inventory_cheapest exampleStore carol ''P1'' ''New York'' = Response 200 (Json (select_listing carol e))
         \<and> listing_price (select_listing carol e) = price e
         \<and> listing_inStock (select_listing carol e))
   \<and> inventory_cheapest exampleStore carol ''P1'' ''New York'' =
       Response 200 (Json \<lparr> listing_price = 7 / 2, listing_inStock = True, listing_updatedAt = None,
         listing_updatedBy = None, listing_supermarketName = ''Fresh Mart'',
         listing_productName = ''Milk'' \<rparr>)
   \<and> \<not> (\<exists>e\<in>set (inventories exampleStore). offer ''P2'' ''New York'' e)
   \<and> inventory_cheapest exampleStore carol ''P2'' ''New York'' =
        Response 404 (Message ''No listing found for the given product and city.'')"
proof -
  note found = inventory_cheapest_minimum [OF carol_allowed, of exampleStore "''P1''" "''New York''",
      unfolded if_P [OF milk_in_New_York]]
  note missing = inventory_cheapest_minimum [OF carol_allowed, of exampleStore "''P2''" "''New York''",
      unfolded if_not_P [OF no_bread_in_New_York]]
  show ?thesis
    by (rule conjI [OF carol_allowed conjI [OF milk_in_New_York conjI [OF found
          conjI [OF cheapest_milk_carol conjI [OF no_bread_in_New_York missing]]]]])
qed

lemma reaudited_variant:
  "list_all2 audit_variant (inventories exampleStore) (inventories reauditedStore)"
  by (simp add: reauditedStore_def exampleStore_def exampleInventories_def audit_variant_def)

lemma bob_not_admin: "role bob \<noteq> ''ADMIN''"
  by (simp add: bob_def)

theorem inventory_cheapest_audit_fields_witness:
  "role bob \<noteq> ''ADMIN''
   \<and> list_all2 audit_variant (inventories exampleStore) (inventories reauditedStore)
   \<and> inventory_cheapest reauditedStore bob ''P1'' ''New York''
       = inventory_cheapest exampleStore bob ''P1'' ''New York''
   \<and> inventory_cheapest exampleStore alice ''P1'' ''New York'' =
       Response 200 (Json \<lparr> listing_price = 7 / 2, listing_inStock = True, listing_updatedAt = Some 31,
         listing_updatedBy = Some \<lparr> modifier_email = ''alice@example.com'', modifier_userId = ''u1'' \<rparr>,
         listing_supermarketName = ''Fresh Mart'', listing_productName = ''Milk'' \<rparr>)
   \<and> (listing_updatedAt \<lparr> listing_price = 7 / 2, listing_inStock = True, listing_updatedAt = Some 31,
         listing_updatedBy = Some \<lparr> modifier_email = ''alice@example.com'', modifier_userId = ''u1'' \<rparr>,
         listing_supermarketName = ''Fresh Mart'', listing_productName = ''Milk'' \<rparr> \<noteq> None
        \<longleftrightarrow> role alice = ''ADMIN'')"
proof -
  note t = inventory_cheapest_audit_fields [of exampleStore bob "''P1''" "''New York''" reauditedStore]
  note i = mp [OF conjunct2 [OF t] conjI [OF bob_not_admin reaudited_variant]]
  note a = inventory_cheapest_audit_fields [of exampleStore alice "''P1''" "''New York''" exampleStore]
  note f = conjunct1 [OF mp [OF spec [OF conjunct1 [OF a]] cheapest_milk_alice]]
  show ?thesis
    by (rule conjI [OF bob_not_admin conjI [OF reaudited_variant conjI [OF i
          conjI [OF cheapest_milk_alice f]]]])
qed

section \<open>Properties of the product and supermarket handlers\<close>

lemma find_Some_iff_ex: "(\<exists>x. find P xs = Some x) \<longleftrightarrow> (\<exists>x\<in>set xs. P x)"
  by (induction xs) auto

text \<open>
  C6: when a VERIFIED or ADMIN caller posts a product whose name some stored product
  already has, the handler refuses with its duplicate-name answer, which the code sends
  with status 400, and returns the store as it was: no row is added.
\<close>

theorem product_post_conflict:
  assumes "role u = ''VERIFIED'' \<or> role u = ''ADMIN''"
    and "\<exists>p\<in>set (products s). productName p = body_productName b"
  shows "product_post ProductCategory s u b newId now =
     (s, Response 400 (Message
        ''The product you entered already exists in the database. If you want to update the price, please use the 'update' feature.''))"
proof -
  from assms(2) obtain p where "find (\<lambda>p. productName p = body_productName b) (products s) = Some p"
    using find_Some_iff_ex [of "\<lambda>p. productName p = body_productName b" "products s"] by blast
  with assms(1) show ?thesis
    by (auto simp: product_post_def)
qed

text \<open>
  C7: for a caller whose role is BASIC, PATCH /supermarket/:id answers 403 and returns the
  store as it was; in particular the row with the given id, all of its fields, is the same
  after the request as before.
\<close>

theorem supermarket_patch_basic_forbidden:
  assumes "role u = ''BASIC''"
  shows "supermarket_patch s u ident b now = (s, Response 403 (Message ''Insufficient permissions.''))
       \<and> find (\<lambda>m. supermarketId m = ident) (supermarkets (fst (supermarket_patch s u ident b now)))
           = find (\<lambda>m. supermarketId m = ident) (supermarkets s)"
  using assms by (simp add: supermarket_patch_def)

lemma find_map_update:
  assumes "find (\<lambda>q. productId q = ident) tbl = Some p" and "productId p' = ident"
  shows "find (\<lambda>q. productId q = ident) (map (\<lambda>q. if productId q = ident then p' else q) tbl) = Some p'"
  using assms by (induction tbl) (auto split: if_splits)

lemma product_update_Some:
  assumes "update_product ProductCategory tbl ident d now = Some (tbl', p')"
    and "find (\<lambda>q. productId q = ident) tbl = Some p"
  shows "p' = apply_productUpdateData d now p"
    and "find (\<lambda>q. productId q = ident) tbl' = Some p'"
proof -
  from assms show p': "p' = apply_productUpdateData d now p"
    by (auto simp: update_product_def Let_def split: if_splits)
  from assms(2) have "productId p = ident"
    by (induction tbl) (auto split: if_splits)
  then have "productId p' = ident"
    by (simp add: p' apply_productUpdateData_def)
  moreover from assms have "tbl' = map (\<lambda>q. if productId q = ident then p' else q) tbl"
    by (auto simp: update_product_def Let_def split: if_splits)
  ultimately show "find (\<lambda>q. productId q = ident) tbl' = Some p'"
    using assms(2) by (simp add: find_map_update)
qed

lemma product_patch_not_admin:
  assumes "role u = ''VERIFIED''"
    and "find (\<lambda>q. productId q = ident) (products s) = Some p"
  shows "product_patch ProductCategory s u ident b now =
     (s\<lparr> products := map (\<lambda>q. if productId q = ident
                               then p\<lparr> product_updatedBy := userId u, product_updatedAt := now \<rparr>
                               else q) (products s),
          inventories := map (\<lambda>e. if productId (product e) = ident
                               then e\<lparr>product := p\<lparr> product_updatedBy := userId u, product_updatedAt := now \<rparr>\<rparr>
                               else e) (inventories s) \<rparr>,
      Response 200 (Json
        \<lparr> view_productId = productId p, view_productName = productName p,
          view_productCategory = productCategory p, view_productComments = productComments p,
          view_updatedAt = now,
          view_updatedBy = \<lparr> modifier_email = email u, modifier_userId = userId u \<rparr> \<rparr>))"
  using assms
  by (simp add: product_patch_def update_product_def apply_productUpdateData_def Let_def)

text \<open>
  C8: for a VERIFIED or ADMIN caller and a stored product, an update by a VERIFIED caller
  always succeeds, and after every successful update the row with that id has
  \<open>updatedBy\<close> equal to the caller's id and, unless the caller is an ADMIN, the name,
  category and comments it had before.
\<close>

theorem product_patch_fields:
  assumes "role u = ''VERIFIED'' \<or> role u = ''ADMIN''"
    and "find (\<lambda>q. productId q = ident) (products s) = Some p"
  shows "(role u = ''VERIFIED'' \<longrightarrow>
            (\<exists>s' v. product_patch ProductCategory s u ident b now = (s', Response 200 (Json v))))
       \<and> (\<forall>s' v. product_patch ProductCategory s u ident b now = (s', Response 200 (Json v)) \<longrightarrow>
            (\<exists>p'. find (\<lambda>q. productId q = ident) (products s') = Some p'
               \<and> product_updatedBy p' = userId u
               \<and> (role u \<noteq> ''ADMIN'' \<longrightarrow>
                    productName p' = productName p \<and> productCategory p' = productCategory p
                    \<and> productComments p' = productComments p)))"
proof (intro conjI allI impI)
  assume "role u = ''VERIFIED''"
  with assms(2) show "\<exists>s' v. product_patch ProductCategory s u ident b now = (s', Response 200 (Json v))"
    by (simp add: product_patch_not_admin)
next
  fix s' v
  assume r: "product_patch ProductCategory s u ident b now = (s', Response 200 (Json v))"
  define d where "d = (let updateData =
              \<lparr> data_productName = None, data_productCategory = None, data_productComments = None,
                data_updatedBy = userId u \<rparr>
       in if role u = ''ADMIN''
               then updateData
                      \<lparr> data_productName :=
                          (if truthy (patch_productName b) then patch_productName b else None),
                        data_productCategory :=
                          (if truthy (patch_productCategory b) then patch_productCategory b else None),
                        data_productComments :=
                          (if truthy (patch_productComments b) then patch_productComments b else None) \<rparr>
               else updateData)"
  have by_u: "data_updatedBy d = userId u"
    by (simp add: d_def Let_def)
  have no_data: "role u \<noteq> ''ADMIN'' \<Longrightarrow>
      data_productName d = None \<and> data_productCategory d = None \<and> data_productComments d = None"
    by (simp add: d_def Let_def)
  from r assms(1) obtain tbl p' where u: "update_product ProductCategory (products s) ident d now = Some (tbl, p')"
    and s': "products s' = tbl"
    by (auto simp: product_patch_def d_def Let_def split: option.splits if_splits)
  note f = product_update_Some [OF u assms(2)]
  from f(2) have "find (\<lambda>q. productId q = ident) (products s') = Some p'"
    by (simp add: s')
  moreover have "product_updatedBy p' = userId u"
    by (simp add: f(1) apply_productUpdateData_def by_u)
  moreover have "role u \<noteq> ''ADMIN'' \<longrightarrow>
      productName p' = productName p \<and> productCategory p' = productCategory p
      \<and> productComments p' = productComments p"
    using no_data by (auto simp: f(1) apply_productUpdateData_def)
  ultimately show "\<exists>p'. find (\<lambda>q. productId q = ident) (products s') = Some p'
               \<and> product_updatedBy p' = userId u
               \<and> (role u \<noteq> ''ADMIN'' \<longrightarrow>
                    productName p' = productName p \<and> productCategory p' = productCategory p
                    \<and> productComments p' = productComments p)"
    by blast
qed

subsection \<open>The product and supermarket handlers on the example store\<close>

lemma bob_permitted: "role bob = ''VERIFIED'' \<or> role bob = ''ADMIN''"
  by (simp add: bob_def)

lemma milk_exists: "\<exists>p\<in>set (products exampleStore). productName p = body_productName milkAgain"
  by (simp add: example_defs milkAgain_def)

lemma post_eggs:
  "product_post exampleCategories exampleStore bob eggs ''P4'' 1000 =
     (exampleStore\<lparr> products := [milk, bread, gum,
         \<lparr> productId = ''P4'', productName = ''Eggs'', productCategory = ''DAIRY'',
           productComments = ''a dozen'', product_createdBy = ''u2'', product_updatedBy = ''u2'',
           product_updatedAt = 1000 \<rparr>] \<rparr>,
      Response 201 (Json
         \<lparr> productId = ''P4'', productName = ''Eggs'', productCategory = ''DAIRY'',
           productComments = ''a dozen'', product_createdBy = ''u2'', product_updatedBy = ''u2'',
           product_updatedAt = 1000 \<rparr>))"
  by (simp add: product_post_def product_create_def eggs_def exampleCategories_def
      exampleStore_def bob_def milk_def bread_def gum_def Let_def)

theorem product_post_conflict_witness:
  "(role bob = ''VERIFIED'' \<or> role bob = ''ADMIN'')
   \<and> (\<exists>p\<in>set (products exampleStore). productName p = body_productName milkAgain)
   \<and> product_post exampleCategories exampleStore bob milkAgain ''P4'' 1000 =
       (exampleStore, Response 400 (Message
          ''The product you entered already exists in the database. If you want to update the price, please use the 'update' feature.''))
   \<and> product_post exampleCategories exampleStore bob eggs ''P4'' 1000 =
     (exampleStore\<lparr> products := [milk, bread, gum,
         \<lparr> productId = ''P4'', productName = ''Eggs'', productCategory = ''DAIRY'',
           productComments = ''a dozen'', product_createdBy = ''u2'', product_updatedBy = ''u2'',
           product_updatedAt = 1000 \<rparr>] \<rparr>,
      Response 201 (Json
         \<lparr> productId = ''P4'', productName = ''Eggs'', productCategory = ''DAIRY'',
           productComments = ''a dozen'', product_createdBy = ''u2'', product_updatedBy = ''u2'',
           product_updatedAt = 1000 \<rparr>))"
  by (rule conjI [OF bob_permitted conjI [OF milk_exists
        conjI [OF product_post_conflict [OF bob_permitted milk_exists] post_eggs]]])

lemma carol_basic: "role carol = ''BASIC''"
  by (simp add: carol_def)

lemma patch_freshMart_alice:
  "supermarket_patch exampleStore alice ''S1'' toBoston 1000 =
     (exampleStore\<lparr> supermarkets :=
         [freshMart\<lparr> city := ''Boston'', supermarket_updatedBy := ''u1'', supermarket_updatedAt := 1000 \<rparr>,
          cityGrocer, cornerShop, harborFoods],
        inventories :=
          map (\<lambda>e. if supermarketId (supermarket e) = ''S1''
                   then e\<lparr>supermarket := freshMart\<lparr> city := ''Boston'', supermarket_updatedBy := ''u1'',
                                         supermarket_updatedAt := 1000 \<rparr>\<rparr>
                   else e) exampleInventories \<rparr>,
      Response 200 (Json
         (freshMart\<lparr> city := ''Boston'', supermarket_updatedBy := ''u1'', supermarket_updatedAt := 1000 \<rparr>)))"
  by (simp add: supermarket_patch_def update_supermarket_def toBoston_def example_defs Let_def)

theorem supermarket_patch_basic_forbidden_witness:
  "role carol = ''BASIC''
   \<and> (supermarket_patch exampleStore carol ''S1'' toBoston 1000 =
         (exampleStore, Response 403 (Message ''Insufficient permissions.''))
       \<and> find (\<lambda>m. supermarketId m = ''S1'')
            (supermarkets (fst (supermarket_patch exampleStore carol ''S1'' toBoston 1000)))
           = find (\<lambda>m. supermarketId m = ''S1'') (supermarkets exampleStore))
   \<and> supermarket_patch exampleStore alice ''S1'' toBoston 1000 =
     (exampleStore\<lparr> supermarkets :=
         [freshMart\<lparr> city := ''Boston'', supermarket_updatedBy := ''u1'', supermarket_updatedAt := 1000 \<rparr>,
          cityGrocer, cornerShop, harborFoods],
        inventories :=
          map (\<lambda>e. if supermarketId (supermarket e) = ''S1''
                   then e\<lparr>supermarket := freshMart\<lparr> city := ''Boston'', supermarket_updatedBy := ''u1'',
                                         supermarket_updatedAt := 1000 \<rparr>\<rparr>
                   else e) exampleInventories \<rparr>,
      Response 200 (Json
         (freshMart\<lparr> city := ''Boston'', supermarket_updatedBy := ''u1'', supermarket_updatedAt := 1000 \<rparr>)))"
  by (rule conjI [OF carol_basic conjI [OF supermarket_patch_basic_forbidden [OF carol_basic]
        patch_freshMart_alice]])

lemma find_milk: "find (\<lambda>q. productId q = ''P1'') (products exampleStore) = Some milk"
  by (simp add: exampleStore_def milk_def)

lemma patch_milk_bob:
  "product_patch exampleCategories exampleStore bob ''P1'' oatMilk 1000 =
     (exampleStore\<lparr> products :=
         [milk\<lparr> product_updatedBy := ''u2'', product_updatedAt := 1000 \<rparr>, bread, gum],
        inventories :=
          map (\<lambda>e. if productId (product e) = ''P1''
                   then e\<lparr>product := milk\<lparr> product_updatedBy := ''u2'', product_updatedAt := 1000 \<rparr>\<rparr>
                   else e) exampleInventories \<rparr>,
      Response 200 (Json
        \<lparr> view_productId = ''P1'', view_productName = ''Milk'', view_productCategory = ''DAIRY'',
          view_productComments = ''1 l'', view_updatedAt = 1000,
          view_updatedBy = \<lparr> modifier_email = ''bob@example.com'', modifier_userId = ''u2'' \<rparr> \<rparr>))"
  by (simp add: product_patch_def update_product_def apply_productUpdateData_def oatMilk_def
      example_defs Let_def)

lemma patch_milk_alice:
  "product_patch exampleCategories exampleStore alice ''P1'' oatMilk 1000 =
     (exampleStore\<lparr> products :=
         [milk\<lparr> productName := ''Oat milk'', product_updatedBy := ''u1'', product_updatedAt := 1000 \<rparr>,
          bread, gum],
        inventories :=
          map (\<lambda>e. if productId (product e) = ''P1''
                   then e\<lparr>product := milk\<lparr> productName := ''Oat milk'', product_updatedBy := ''u1'',
                                     product_updatedAt := 1000 \<rparr>\<rparr>
                   else e) exampleInventories \<rparr>,
      Response 200 (Json
        \<lparr> view_productId = ''P1'', view_productName = ''Oat milk'', view_productCategory = ''DAIRY'',
          view_productComments = ''1 l'', view_updatedAt = 1000,
          view_updatedBy = \<lparr> modifier_email = ''alice@example.com'', modifier_userId = ''u1'' \<rparr> \<rparr>))"
  by (simp add: product_patch_def update_product_def apply_productUpdateData_def oatMilk_def
      truthy_def example_defs Let_def)

theorem product_patch_fields_witness:
  "(role bob = ''VERIFIED'' \<or> role bob = ''ADMIN'')
   \<and> find (\<lambda>q. productId q = ''P1'') (products exampleStore) = Some milk
   \<and> product_patch exampleCategories exampleStore bob ''P1'' oatMilk 1000 =
     (exampleStore\<lparr> products :=
         [milk\<lparr> product_updatedBy := ''u2'', product_updatedAt := 1000 \<rparr>, bread, gum],
        inventories :=
          map (\<lambda>e. if productId (product e) = ''P1''
                   then e\<lparr>product := milk\<lparr> product_updatedBy := ''u2'', product_updatedAt := 1000 \<rparr>\<rparr>
                   else e) exampleInventories \<rparr>,
      Response 200 (Json
        \<lparr> view_productId = ''P1'', view_productName = ''Milk'', view_productCategory = ''DAIRY'',
          view_productComments = ''1 l'', view_updatedAt = 1000,
          view_updatedBy = \<lparr> modifier_email = ''bob@example.com'', modifier_userId = ''u2'' \<rparr> \<rparr>))
   \<and> (\<exists>p'. find (\<lambda>q. productId q = ''P1'')
              (products (exampleStore\<lparr> products :=
                 [milk\<lparr> product_updatedBy := ''u2'', product_updatedAt := 1000 \<rparr>, bread, gum],
                inventories :=
                  map (\<lambda>e. if productId (product e) = ''P1''
                           then e\<lparr>product := milk\<lparr> product_updatedBy := ''u2'', product_updatedAt := 1000 \<rparr>\<rparr>
                           else e) exampleInventories \<rparr>))
            = Some p'
          \<and> product_updatedBy p' = userId bob
          \<and> (role bob \<noteq> ''ADMIN'' \<longrightarrow>
               productName p' = productName milk \<and> productCategory p' = productCategory milk
               \<and> productComments p' = productComments milk))
   \<and> product_patch exampleCategories exampleStore alice ''P1'' oatMilk 1000 =
     (exampleStore\<lparr> products :=
         [milk\<lparr> productName := ''Oat milk'', product_updatedBy := ''u1'', product_updatedAt := 1000 \<rparr>,
          bread, gum],
        inventories :=
          map (\<lambda>e. if productId (product e) = ''P1''
                   then e\<lparr>product := milk\<lparr> productName := ''Oat milk'', product_updatedBy := ''u1'',
                                     product_updatedAt := 1000 \<rparr>\<rparr>
                   else e) exampleInventories \<rparr>,
      Response 200 (Json
        \<lparr> view_productId = ''P1'', view_productName = ''Oat milk'', view_productCategory = ''DAIRY'',
          view_productComments = ''1 l'', view_updatedAt = 1000,
          view_updatedBy = \<lparr> modifier_email = ''alice@example.com'', modifier_userId = ''u1'' \<rparr> \<rparr>))"
proof -
  note t = product_patch_fields [OF bob_permitted find_milk, of exampleCategories oatMilk 1000]
  note f = mp [OF spec [OF spec [OF conjunct2 [OF t]]] patch_milk_bob]
  show ?thesis
    by (rule conjI [OF bob_permitted conjI [OF find_milk conjI [OF patch_milk_bob
          conjI [OF f patch_milk_alice]]]])
qed


text \<open>A later read sees the update of a supermarket or a product.\<close>

lemma cheapest_milk_after_move:
  "inventory_cheapest (fst (supermarket_patch exampleStore alice ''S1'' toBoston 1000)) carol
      ''P1'' ''New York'' =
     Response 200 (Json \<lparr> listing_price = 17 / 4, listing_inStock = True, listing_updatedAt = None,
       listing_updatedBy = None, listing_supermarketName = ''City Grocer'',
       listing_productName = ''Milk'' \<rparr>)"
  by (simp add: patch_freshMart_alice)
    (simp add: inventory_cheapest_def allowedRoles_def findFirst_def offer_def select_listing_def
      example_defs)

lemma cheapest_milk_after_rename:
  "inventory_cheapest (fst (product_patch exampleCategories exampleStore alice ''P1'' oatMilk 1000)) carol
      ''P1'' ''New York'' =
     Response 200 (Json \<lparr> listing_price = 7 / 2, listing_inStock = True, listing_updatedAt = None,
       listing_updatedBy = None, listing_supermarketName = ''Fresh Mart'',
       listing_productName = ''Oat milk'' \<rparr>)"
  by (simp add: patch_milk_alice)
    (simp add: inventory_cheapest_def allowedRoles_def findFirst_def offer_def select_listing_def
      example_defs)

end
